theory Spec2Isabelle
  imports Main "HOL-Library.Sublist" "HOL-Library.Char_ord" "HOL-Library.List_Lexorder"
    "HOL-Library.Product_Lexorder" "HOL-Library.Multiset"
begin

section \<open>Text: the string operations of the scripts\<close>

text \<open>
  The scripts of \<^verbatim>\<open>src/scripts\<close> work on Python \<^verbatim>\<open>str\<close> values. A text is modelled
  as a \<^typ>\<open>string\<close> holding its UTF-8 encoding, so that the non-ASCII literals of the
  templates (emoji, dashes) are the byte sequences of the source files. The definitions
  below follow Python on ASCII text: the white space, line boundaries, digits and letters
  are the ASCII ones; a character beyond ASCII is an ordinary character for them.
  Substring tests (\<^verbatim>\<open>a in b\<close>) are \<^const>\<open>sublist\<close>, \<^verbatim>\<open>startswith\<close> is \<^const>\<open>prefix\<close>
  and \<^verbatim>\<open>endswith\<close> is \<^const>\<open>suffix\<close>.
\<close>

definition code_of :: "char \<Rightarrow> nat" where
  "code_of c = of_char c"

definition isspace :: "char \<Rightarrow> bool" where
  \<comment> \<open>\<^verbatim>\<open>str.isspace\<close> and the regular expression class \<^verbatim>\<open>\s\<close>: TAB, LF, VT, FF, CR,
      FS, GS, RS, US and the space.\<close>
  "isspace c = (let n = code_of c in (9 \<le> n \<and> n \<le> 13) \<or> (28 \<le> n \<and> n \<le> 32))"

definition is_linebreak :: "char \<Rightarrow> bool" where
  \<comment> \<open>The line boundaries of \<^verbatim>\<open>str.splitlines\<close>: LF, VT, FF, CR, FS, GS, RS.\<close>
  "is_linebreak c = (let n = code_of c in (10 \<le> n \<and> n \<le> 13) \<or> (28 \<le> n \<and> n \<le> 30))"

definition isdigit :: "char \<Rightarrow> bool" where
  \<comment> \<open>The class \<^verbatim>\<open>\d\<close>.\<close>
  "isdigit c = (let n = code_of c in 48 \<le> n \<and> n \<le> 57)"

definition is_upper :: "char \<Rightarrow> bool" where
  "is_upper c = (let n = code_of c in 65 \<le> n \<and> n \<le> 90)"

definition is_lower :: "char \<Rightarrow> bool" where
  "is_lower c = (let n = code_of c in 97 \<le> n \<and> n \<le> 122)"

definition isalpha :: "char \<Rightarrow> bool" where
  \<comment> \<open>The class \<^verbatim>\<open>[A-Za-z]\<close>.\<close>
  "isalpha c = (is_upper c \<or> is_lower c)"

definition lower_char :: "char \<Rightarrow> char" where
  \<comment> \<open>An upper-case letter and its lower-case letter differ in bit 5 (value 32).\<close>
  "lower_char c =
     (if is_upper c
      then (case c of Char b0 b1 b2 b3 b4 b5 b6 b7 \<Rightarrow> Char b0 b1 b2 b3 b4 True b6 b7)
      else c)"

definition upper_char :: "char \<Rightarrow> char" where
  "upper_char c =
     (if is_lower c
      then (case c of Char b0 b1 b2 b3 b4 b5 b6 b7 \<Rightarrow> Char b0 b1 b2 b3 b4 False b6 b7)
      else c)"

definition lower :: "string \<Rightarrow> string" where
  "lower s = map lower_char s"

fun title_from :: "bool \<Rightarrow> string \<Rightarrow> string" where
  \<comment> \<open>\<^verbatim>\<open>str.title\<close>: a letter that follows a letter is lowered, any other letter is
      raised. The flag says whether the previous character was a letter.\<close>
  "title_from prev [] = []"
| "title_from prev (c # cs) =
     (if isalpha c then (if prev then lower_char c else upper_char c) # title_from True cs
      else c # title_from False cs)"

definition title :: "string \<Rightarrow> string" where
  "title s = title_from False s"

definition lstrip :: "string \<Rightarrow> string" where
  "lstrip s = dropWhile isspace s"

definition rstrip :: "string \<Rightarrow> string" where
  "rstrip s = rev (dropWhile isspace (rev s))"

definition strip :: "string \<Rightarrow> string" where
  "strip s = rstrip (lstrip s)"

definition LF :: char where
  "LF = CHR 0x0A"

definition CR :: char where
  "CR = CHR 0x0D"

definition nl :: string where
  "nl = [LF]"

fun join :: "string \<Rightarrow> string list \<Rightarrow> string" where
  \<comment> \<open>\<^verbatim>\<open>sep.join(xs)\<close>\<close>
  "join sep [] = []"
| "join sep [x] = x"
| "join sep (x # y # ys) = x @ sep @ join sep (y # ys)"

fun splitlines :: "string \<Rightarrow> string list" where
  \<comment> \<open>\<^verbatim>\<open>str.splitlines()\<close>: the lines without their boundaries; CR LF is one boundary;
      a boundary at the very end opens no further line.\<close>
  "splitlines [] = []"
| "splitlines (c # cs) =
     (if is_linebreak c then
        (case cs of
           [] \<Rightarrow> [[]]
         | d # ds \<Rightarrow> if c = CR \<and> d = LF then [] # splitlines ds else [] # splitlines cs)
      else
        (case splitlines cs of
           [] \<Rightarrow> [[c]]
         | l # ls \<Rightarrow> (c # l) # ls))"

fun str_nat :: "nat \<Rightarrow> string" where
  \<comment> \<open>\<^verbatim>\<open>str(n)\<close> of a natural number: its decimal digits.\<close>
  "str_nat n =
     (if n < 10 then [''0123456789'' ! n]
      else str_nat (n div 10) @ [''0123456789'' ! (n mod 10)])"

declare str_nat.simps [simp del]

section \<open>Plan pipeline: the plan-output extractor\<close>

definition PLAN_PHRASE :: string where
  "PLAN_PHRASE = ''Terraform used the selected providers to generate the following execution''"

fun plan_start :: "nat \<Rightarrow> string list \<Rightarrow> nat" where
  \<comment> \<open>The loop of \<^verbatim>\<open>_extract_plan_only\<close> over \<^verbatim>\<open>enumerate(lines)\<close>, from index \<open>i\<close>:
      the index of the first line that contains the phrase; \<open>start\<close> keeps its initial
      value 0 when the loop ends without a hit.\<close>
  "plan_start i [] = 0"
| "plan_start i (l # ls) = (if sublist PLAN_PHRASE l then i else plan_start (Suc i) ls)"

definition extract_plan_only :: "string \<Rightarrow> string" where
  "extract_plan_only text =
     (let lines = splitlines text;
          start = plan_start 0 lines
      in strip (join nl (drop start lines)))"



section \<open>Lint pipeline: the parser of the lint output\<close>

datatype py_error = ValueError | TypeError | KeyError | AttributeError | OSError | JSONDecodeError

definition digits_value :: "string \<Rightarrow> nat" where
  \<comment> \<open>The number a string of decimal digits denotes.\<close>
  "digits_value s = fold (\<lambda>c n. 10 * n + (code_of c - 48)) s 0"

definition py_int :: "string \<Rightarrow> py_error + nat" where
  \<comment> \<open>\<^verbatim>\<open>int(s)\<close> on a string of decimal digits, of any length; on a string that is not
      one, ValueError. (Signs, underscores and surrounding white space, which \<^verbatim>\<open>int\<close>
      accepts as well, never reach it: the parser passes what \<^verbatim>\<open>\d+\<close> matched.)\<close>
  "py_int s =
     (if s \<noteq> [] \<and> list_all isdigit s
      then Inr (digits_value s)
      else Inl ValueError)"

record issue =
  line :: nat
  col :: nat
  level :: string
  rule :: string
  msg :: string

type_synonym files = "(string \<times> issue list) list"
  \<comment> \<open>The dictionary \<^verbatim>\<open>files\<close>: file path to issues, in insertion order, each key once.\<close>

record line_match =
  g_file :: string
  g_line :: string
  g_col :: string
  g_level :: string
  g_msg :: string
  g_rule :: "string option"

definition take_plus :: "(char \<Rightarrow> bool) \<Rightarrow> string \<Rightarrow> (string \<times> string) option" where
  \<comment> \<open>A greedy \<^verbatim>\<open>[class]+\<close> whose continuation starts with a character outside the
      class: the longest run, which must not be empty, and the rest.\<close>
  "take_plus P s = (if takeWhile P s = [] then None else Some (takeWhile P s, dropWhile P s))"

definition expect_char :: "char \<Rightarrow> string \<Rightarrow> string option" where
  \<comment> \<open>A literal character: the rest after it.\<close>
  "expect_char c s = (case s of [] \<Rightarrow> None | d # ds \<Rightarrow> if d = c then Some ds else None)"

definition rule_suffix :: "string \<Rightarrow> string option" where
  \<comment> \<open>\<^verbatim>\<open>(?:\s*\((?P<rule>[^)]+)\))\<close> followed by \<^verbatim>\<open>\s*$\<close>, tried at the start of \<open>s\<close>: white
      space, an opening parenthesis, the non-empty text up to the first closing parenthesis,
      that parenthesis, and nothing but white space up to the end.\<close>
  "rule_suffix s =
     (case expect_char (CHR ''('') (dropWhile isspace s) of
        None \<Rightarrow> None
      | Some t \<Rightarrow>
          (case take_plus (\<lambda>x. x \<noteq> CHR '')'') t of
             None \<Rightarrow> None
           | Some (r, u) \<Rightarrow>
               (case expect_char (CHR '')'') u of
                  None \<Rightarrow> None
                | Some v \<Rightarrow> if list_all isspace v then Some r else None)))"

fun find_msg :: "string \<Rightarrow> string \<Rightarrow> string \<times> string option" where
  \<comment> \<open>The lazy \<^verbatim>\<open>(?P<msg>.*?)\<close>: \<open>acc\<close> is the message taken so far. At each length,
      shortest first, the optional rule group is tried, then the end without it
      (\<^verbatim>\<open>\s*$\<close>); otherwise the message takes one more character.\<close>
  "find_msg acc [] = (acc, None)"
| "find_msg acc (c # cs) =
     (case rule_suffix (c # cs) of
        Some r \<Rightarrow> (acc, Some r)
      | None \<Rightarrow>
          if list_all isspace (c # cs) then (acc, None)
          else find_msg (acc @ [c]) cs)"

definition line_re_match :: "string \<Rightarrow> line_match option" where
  \<comment> \<open>\<^verbatim>\<open>LINE_RE.match(raw)\<close> on one line of \<^verbatim>\<open>splitlines\<close>, piece by piece:
      \<^verbatim>\<open>^(?P<file>[^:\n]+):(?P<line>\d+):(?P<col>\d+):\s*(?P<level>[A-Za-z]+)\s*-\s*\<close>
      and then the message, the optional rule and the end.\<close>
  "line_re_match raw =
     (case take_plus (\<lambda>c. c \<noteq> CHR '':'' \<and> c \<noteq> LF) raw of None \<Rightarrow> None | Some (file, s1) \<Rightarrow>
      case expect_char (CHR '':'') s1 of None \<Rightarrow> None | Some s2 \<Rightarrow>
      case take_plus isdigit s2 of None \<Rightarrow> None | Some (ln, s3) \<Rightarrow>
      case expect_char (CHR '':'') s3 of None \<Rightarrow> None | Some s4 \<Rightarrow>
      case take_plus isdigit s4 of None \<Rightarrow> None | Some (cl, s5) \<Rightarrow>
      case expect_char (CHR '':'') s5 of None \<Rightarrow> None | Some s6 \<Rightarrow>
      case take_plus isalpha (dropWhile isspace s6) of None \<Rightarrow> None | Some (lv, s7) \<Rightarrow>
      case expect_char (CHR ''-'') (dropWhile isspace s7) of None \<Rightarrow> None | Some s8 \<Rightarrow>
      (let (m, r) = find_msg [] (dropWhile isspace s8)
       in Some \<lparr>g_file = file, g_line = ln, g_col = cl, g_level = lv, g_msg = m, g_rule = r\<rparr>))"

definition SEV_WEIGHT :: "string \<Rightarrow> nat" where
  \<comment> \<open>\<^verbatim>\<open>SEV_WEIGHT.get(level, 0)\<close>\<close>
  "SEV_WEIGHT lvl =
     (if lvl = ''error'' then 3 else if lvl = ''warning'' then 2
      else if lvl = ''notice'' then 1 else if lvl = ''info'' then 1 else 0)"

fun add_issue :: "string \<Rightarrow> issue \<Rightarrow> files \<Rightarrow> files" where
  \<comment> \<open>\<^verbatim>\<open>files.setdefault(file, []).append(issue)\<close>\<close>
  "add_issue file it [] = [(file, [it])]"
| "add_issue file it ((k, v) # kvs) =
     (if k = file then (k, v @ [it]) # kvs else (k, v) # add_issue file it kvs)"

definition is_summary_line :: "string \<Rightarrow> bool" where
  "is_summary_line raw =
     (let low = lower raw in sublist ''issue(s) found'' low \<or> sublist ''no issues'' low)"

definition make_issue :: "line_match \<Rightarrow> py_error + issue" where
  \<comment> \<open>The dictionary built from \<^verbatim>\<open>m.groupdict()\<close>.\<close>
  "make_issue d =
     (case py_int (g_line d) of Inl e \<Rightarrow> Inl e | Inr ln \<Rightarrow>
      case py_int (g_col d) of Inl e \<Rightarrow> Inl e | Inr cl \<Rightarrow>
      Inr \<lparr>line = ln, col = cl, level = lower (g_level d),
           rule = strip (case g_rule d of None \<Rightarrow> [] | Some r \<Rightarrow> r),
           msg = strip (g_msg d)\<rparr>)"

fun parse_lines :: "files \<Rightarrow> string list \<Rightarrow> py_error + files" where
  \<comment> \<open>The first loop of \<^verbatim>\<open>parse_tflint_output\<close>.\<close>
  "parse_lines fs [] = Inr fs"
| "parse_lines fs (raw # raws) =
     (if strip raw = [] then parse_lines fs raws
      else if is_summary_line raw then parse_lines fs raws
      else
        (case line_re_match raw of
           None \<Rightarrow> parse_lines fs raws
         | Some d \<Rightarrow>
             (case make_issue d of
                Inl e \<Rightarrow> Inl e
              | Inr it \<Rightarrow> parse_lines (add_issue (strip (g_file d)) it fs) raws)))"

definition issue_key :: "issue \<Rightarrow> int \<times> nat \<times> nat" where
  \<comment> \<open>The sort key \<^verbatim>\<open>(-SEV_WEIGHT.get(x["level"], 0), x["line"], x["col"])\<close>\<close>
  "issue_key x = (- int (SEV_WEIGHT (level x)), line x, col x)"

definition parse_tflint_output :: "string \<Rightarrow> py_error + files" where
  \<comment> \<open>Python's sort is stable, as \<^const>\<open>sort_key\<close> is.\<close>
  "parse_tflint_output text =
     (case parse_lines [] (splitlines text) of
        Inl e \<Rightarrow> Inl e
      | Inr fs \<Rightarrow>
          Inr (sort_key (\<lambda>kv. lower (fst kv))
                 (map (\<lambda>(file, issues). (file, sort_key issue_key issues)) fs)))"

record totals =
  tot_error :: nat
  tot_warning :: nat
  tot_info :: nat
  tot_total :: nat

definition count_level :: "(string \<Rightarrow> nat) \<Rightarrow> issue \<Rightarrow> (string \<Rightarrow> nat)" where
  \<comment> \<open>\<^verbatim>\<open>t[lvl] = t.get(lvl, 0) + 1\<close>; a key the dictionary lacks reads as 0.\<close>
  "count_level t it = t(level it := t (level it) + 1)"

definition totals_from_files :: "files \<Rightarrow> totals" where
  "totals_from_files fs =
     (let t = fold (\<lambda>issues t. fold (\<lambda>it t. count_level t it) issues t) (map snd fs) (\<lambda>k. 0);
          t = t(''info'' := t ''info'' + t ''notice'')
      in \<lparr>tot_error = t ''error'', tot_warning = t ''warning'', tot_info = t ''info'',
           tot_total = sum_list [t ''error'', t ''warning'', t ''info'']\<rparr>)"


section \<open>Lint pipeline: configuration and rendering\<close>

text \<open>
  The module-level constants of a script, read once from the environment when the script
  starts, are the fields of one record that every function takes as its first argument.
  Both scripts read the same variables; a field a script does not read is not used by its
  functions. The emoji and dashes of the templates are named constants, each the UTF-8
  bytes the source file holds.
\<close>

record globals =
  GITHUB_API :: string
  REPO :: string
  OWNER :: string
  REPO_NAME :: string
  TOKEN :: string
  EVENT_NAME :: string
  EVENT_PATH :: string
  RUN_ID :: string
  REPO_OWNER_FOR_URL :: string
  GITHUB_SHA :: string
  PR_COMMENT_MARKER :: string
  TF_ACTIONS_WORKING_DIR :: string
  GITHUB_ACTOR :: string
  GITHUB_WORKFLOW :: string
  TFLINT_OUTPUT :: string
  PR_DELETE_COMMENT :: bool
  CREATE_COMMENT :: bool
  TF_ADD_COUNT :: string
  TF_CHANGE_COUNT :: string
  TF_DESTROY_COUNT :: string
  GITHUB_WORKSPACE :: "string option"
  GITHUB_SERVER_URL :: "string option"


definition E_CROSS :: string where
  "E_CROSS = [CHR 0xE2, CHR 0x9D, CHR 0x8C]"

definition E_WARN :: string where
  "E_WARN = [CHR 0xE2, CHR 0x9A, CHR 0xA0, CHR 0xEF, CHR 0xB8, CHR 0x8F]"

definition E_INFO :: string where
  "E_INFO = [CHR 0xE2, CHR 0x84, CHR 0xB9, CHR 0xEF, CHR 0xB8, CHR 0x8F]"

definition E_BROOM :: string where
  "E_BROOM = [CHR 0xF0, CHR 0x9F, CHR 0xA7, CHR 0xB9]"

definition E_PACKAGE :: string where
  "E_PACKAGE = [CHR 0xF0, CHR 0x9F, CHR 0x93, CHR 0xA6]"

definition E_MIDDOT :: string where
  "E_MIDDOT = [CHR 0xC2, CHR 0xB7]"

definition E_CHECK :: string where
  "E_CHECK = [CHR 0xE2, CHR 0x9C, CHR 0x85]"

definition E_BOOK :: string where
  "E_BOOK = [CHR 0xF0, CHR 0x9F, CHR 0x93, CHR 0x96]"

definition E_PAGE :: string where
  "E_PAGE = [CHR 0xF0, CHR 0x9F, CHR 0x93, CHR 0x84]"

definition E_MDASH :: string where
  "E_MDASH = [CHR 0xE2, CHR 0x80, CHR 0x94]"

definition E_HOURGLASS :: string where
  "E_HOURGLASS = [CHR 0xE2, CHR 0x8F, CHR 0xB3]"

definition E_TECHNOLOGIST :: string where
  "E_TECHNOLOGIST = [CHR 0xF0, CHR 0x9F, CHR 0xA7, CHR 0x91, CHR 0xE2, CHR 0x80, CHR 0x8D, CHR 0xF0, CHR 0x9F, CHR 0x92, CHR 0xBB]"

definition E_GEAR :: string where
  "E_GEAR = [CHR 0xE2, CHR 0x9A, CHR 0x99, CHR 0xEF, CHR 0xB8, CHR 0x8F]"

definition E_FOLDER :: string where
  "E_FOLDER = [CHR 0xF0, CHR 0x9F, CHR 0x93, CHR 0x82]"

definition E_CRANE :: string where
  "E_CRANE = [CHR 0xF0, CHR 0x9F, CHR 0x8F, CHR 0x97, CHR 0xEF, CHR 0xB8, CHR 0x8F]"

definition E_LINK :: string where
  "E_LINK = [CHR 0xF0, CHR 0x9F, CHR 0x94, CHR 0x97]"


definition SEV_EMOJI :: "string \<Rightarrow> string option" where
  "SEV_EMOJI lvl =
     (if lvl = ''error'' then Some E_CROSS else if lvl = ''warning'' then Some E_WARN
      else if lvl = ''notice'' then Some E_INFO else if lvl = ''info'' then Some E_INFO
      else None)"

definition escape_char :: "char \<Rightarrow> string" where
  "escape_char c =
     (if c = CHR ''&'' then ''&amp;'' else if c = CHR ''<'' then ''&lt;''
      else if c = CHR ''>'' then ''&gt;'' else if c = CHR 0x22 then ''&quot;''
      else if c = CHR 0x27 then ''&#x27;'' else [c])"

definition escape :: "string \<Rightarrow> string" where
  \<comment> \<open>\<^verbatim>\<open>html.escape(s)\<close>, quotes included\<close>
  "escape s = concat (map escape_char s)"

definition MAX_ROWS :: nat where
  "MAX_ROWS = 500"

definition details_open :: "string list" where
  "details_open =
     [''<details>'', ''<summary>'' @ E_BOOK @ '' Details (Click me)</summary>'', []]"

definition file_header_html :: "string \<Rightarrow> nat \<Rightarrow> string" where
  "file_header_html file_path n =
     ''\<newline><details><summary>'' @ E_PAGE @ '' <code>'' @ escape file_path @
     ''</code> '' @ E_MDASH @ '' <strong>'' @ str_nat n @
     ''</strong> issue(s)</summary>\<newline>''"

definition table_header_html :: "string" where
  "table_header_html =
     ''<table><thead><tr><th align='' @ [CHR 0x27] @ ''right'' @ [CHR 0x27] @
     ''>Line</th><th align='' @ [CHR 0x27] @ ''right'' @ [CHR 0x27] @
     ''>Col</th><th align='' @ [CHR 0x27] @ ''left'' @ [CHR 0x27] @
     ''>Level</th><th align='' @ [CHR 0x27] @ ''left'' @ [CHR 0x27] @
     ''>Rule</th><th align='' @ [CHR 0x27] @ ''left'' @ [CHR 0x27] @
     ''>Message</th></tr></thead><tbody>''"

definition line_cell_html :: "globals \<Rightarrow> string \<Rightarrow> issue \<Rightarrow> string" where
  "line_cell_html g file_path it =
     (if GITHUB_SHA g \<noteq> [] then ''<a href='' @ [CHR 0x27] @
     ''https://github.com/'' @ REPO_OWNER_FOR_URL g @ ''/'' @ REPO_NAME g @ ''/blob/'' @
     GITHUB_SHA g @ ''/'' @ file_path @ ''#L'' @ str_nat (line it) @ [CHR 0x27] @ ''>'' @
     str_nat (line it) @ ''</a>'' else str_nat (line it))"

definition row_html :: "globals \<Rightarrow> string \<Rightarrow> issue \<Rightarrow> string" where
  "row_html g file_path it =
     ''<tr><td align='' @ [CHR 0x27] @ ''right'' @ [CHR 0x27] @ ''>'' @
     line_cell_html g file_path it @ ''</td><td align='' @ [CHR 0x27] @ ''right'' @
     [CHR 0x27] @ ''>'' @ str_nat (col it) @ ''</td><td>'' @
     (case SEV_EMOJI (level it) of Some e \<Rightarrow> e | None \<Rightarrow> E_INFO) @
     '' <strong>'' @ escape (title (level it)) @ ''</strong></td><td><code>'' @
     (if rule it \<noteq> [] then escape (rule it) else []) @ ''</code></td><td>'' @
     escape (msg it) @ ''</td></tr>''"

definition file_footer_html :: "string" where
  "file_footer_html =
     ''</tbody></table>\<newline></details>\<newline>''"

definition truncation_notice :: "string \<Rightarrow> string" where
  "truncation_notice workflow_url =
     ''<p>'' @ E_HOURGLASS @ '' Output truncated to '' @ str_nat MAX_ROWS @
     '' rows for readability. See full details in the Actions tab: '' @ workflow_url @
     ''</p>''"


fun rows_loop :: "globals \<Rightarrow> string \<Rightarrow> issue list \<Rightarrow> string list \<Rightarrow> nat \<Rightarrow> string list \<times> nat \<times> bool" where
  \<comment> \<open>The inner loop of \<^verbatim>\<open>build_details_html\<close> over the issues of one file; the
      result is \<^verbatim>\<open>parts\<close>, \<^verbatim>\<open>row_count\<close> and whether the loop set \<^verbatim>\<open>truncated\<close>.\<close>
  "rows_loop g file_path [] parts row_count = (parts, row_count, False)"
| "rows_loop g file_path (it # its) parts row_count =
     (if row_count \<ge> MAX_ROWS then (parts, row_count, True)
      else rows_loop g file_path its (parts @ [row_html g file_path it]) (row_count + 1))"

fun files_loop :: "globals \<Rightarrow> files \<Rightarrow> string list \<Rightarrow> nat \<Rightarrow> string list \<times> bool" where
  \<comment> \<open>The outer loop over \<^verbatim>\<open>files.items()\<close>; it is left as soon as \<^verbatim>\<open>truncated\<close> is
      set.\<close>
  "files_loop g [] parts row_count = (parts, False)"
| "files_loop g ((file_path, issues) # rest) parts row_count =
     (let parts = parts @ [file_header_html file_path (length issues)];
          parts = parts @ [table_header_html];
          (parts, row_count, truncated) = rows_loop g file_path issues parts row_count;
          parts = parts @ [file_footer_html]
      in if truncated then (parts, True) else files_loop g rest parts row_count)"

definition build_details_parts :: "globals \<Rightarrow> files \<Rightarrow> string \<Rightarrow> string list" where
  \<comment> \<open>The list \<^verbatim>\<open>parts\<close> that \<^verbatim>\<open>build_details_html\<close> joins.\<close>
  "build_details_parts g fs workflow_url =
     (if fs = [] then details_open @ [''_No issues to display._'', [], ''</details>'', []]
      else
        (let (parts, truncated) = files_loop g fs details_open 0;
             parts = (if truncated then parts @ [truncation_notice workflow_url] else parts)
         in parts @ [[], ''</details>'', []]))"

definition build_details_html :: "globals \<Rightarrow> files \<Rightarrow> string \<Rightarrow> string" where
  "build_details_html g fs workflow_url = join nl (build_details_parts g fs workflow_url)"

definition build_summary_md :: "totals \<Rightarrow> string" where
  "build_summary_md t =
     ''### '' @ E_BROOM @ '' TFLint Summary\<newline>'' @ ''- '' @ E_CROSS @
     '' **Errors**: `'' @ str_nat (tot_error t) @ ''`\<newline>'' @ ''- '' @ E_WARN @
     '' **Warnings**: `'' @ str_nat (tot_warning t) @ ''`\<newline>'' @ ''- '' @ E_INFO @
     '' **Info**: `'' @ str_nat (tot_info t) @ ''`\<newline>'' @ ''- '' @ E_PACKAGE @
     '' **Total**: `'' @ str_nat (tot_total t) @ ''`\<newline>\<newline>'' @
     ''_Legend: '' @ E_CROSS @ '' error '' @ E_MIDDOT @ '' '' @ E_WARN @ '' warning '' @
     E_MIDDOT @ '' '' @ E_INFO @ '' info_\<newline>\<newline>'' @ E_CHECK @
     '' **Lint check succeeded**\<newline>''"

definition lint_footer_md :: "globals \<Rightarrow> string \<Rightarrow> string \<Rightarrow> string" where
  \<comment> \<open>\<^verbatim>\<open>footer_md\<close> of the lint script\<close>
  "lint_footer_md g repo run_id =
     ''\<newline>---\<newline>'' @ E_TECHNOLOGIST @ '' **Actor**: @'' @ GITHUB_ACTOR g @
     ''\<newline>'' @ E_GEAR @ '' **Event**: '' @ EVENT_NAME g @ ''\<newline>'' @
     E_FOLDER @ '' **Working Dir**: `'' @ TF_ACTIONS_WORKING_DIR g @ ''`\<newline>'' @
     E_CRANE @ '' **Workflow**: '' @ GITHUB_WORKFLOW g @ ''\<newline>'' @ E_LINK @
     '' **Run Logs**: [View here](https://github.com/'' @ repo @ ''/actions/runs/'' @
     run_id @ '')\<newline>''"


definition wd_visible :: "globals \<Rightarrow> string" where
  \<comment> \<open>\<^verbatim>\<open>TF_ACTIONS_WORKING_DIR or os.environ.get("GITHUB_WORKSPACE", ".")\<close>\<close>
  "wd_visible g =
     (if TF_ACTIONS_WORKING_DIR g \<noteq> [] then TF_ACTIONS_WORKING_DIR g
      else (case GITHUB_WORKSPACE g of Some w \<Rightarrow> w | None \<Rightarrow> ''.''))"

definition tflint_hidden :: "string \<Rightarrow> string" where
  \<comment> \<open>The hidden token \<^verbatim>\<open><!-- tflint:{marker} -->\<close>\<close>
  "tflint_hidden marker = ''<!-- tflint:'' @ marker @ '' -->''"

definition lint_workflow_url :: "globals \<Rightarrow> string" where
  "lint_workflow_url g =
     ''https://github.com/'' @ REPO_OWNER_FOR_URL g @ ''/'' @ REPO_NAME g @ ''/actions/runs/'' @ RUN_ID g"

definition lint_status :: "totals \<Rightarrow> string" where
  \<comment> \<open>The status of the header, as \<^verbatim>\<open>main\<close> of the lint script composes it.\<close>
  "lint_status t =
     (let err = tot_error t; warn = tot_warning t; info = tot_info t;
        parts = [];
        parts = (if err \<noteq> 0 then parts @
     [str_nat err @ '' '' @ E_CROSS @ '' error'' @
     (if err \<noteq> 1 then ''s'' else [])] else parts);
        parts = (if warn \<noteq> 0 then parts @
     [str_nat warn @ '' '' @ E_WARN @ '' warning'' @
     (if warn \<noteq> 1 then ''s'' else [])] else parts);
        parts = (if parts = [] \<and> info \<noteq> 0 then parts @
     [str_nat info @ '' '' @ E_INFO @
     '' info''] else parts)
      in if parts = [] then ''no issues'' else join '', '' parts)"

definition lint_header_md :: "globals \<Rightarrow> totals \<Rightarrow> string" where
  "lint_header_md g t =
     ''## '' @ E_BROOM @ '' TFLint for `'' @ wd_visible g @ ''` '' @ E_MDASH @ '' '' @
     lint_status t"

definition lint_helper_md :: "string" where
  "lint_helper_md =
     ''_How to read_: **Errors** block merges, **Warnings** need attention, **Info** is advisory.\<newline>_Fix locally_: run `tflint --init && tflint` in this folder.\<newline>\<newline>---\<newline>''"

definition lint_body :: "globals \<Rightarrow> files \<Rightarrow> string" where
  \<comment> \<open>The comment body that \<^verbatim>\<open>main\<close> of the lint script posts.\<close>
  "lint_body g fs =
     (let t = totals_from_files fs; workflow_url = lint_workflow_url g in lint_header_md g t @
     ''\<newline>\<newline>'' @ build_summary_md t @ ''\<newline>'' @ lint_helper_md @
     build_details_html g fs workflow_url @ ''\<newline>'' @ E_LINK @
     '' [View run logs & artifacts]('' @ workflow_url @ '')\<newline>'' @
     lint_footer_md g (REPO g) (RUN_ID g) @ ''\<newline>'' @ tflint_hidden (wd_visible g) @
     ''\<newline>'')"


section \<open>The forge: the issue comments of the pull request\<close>

text \<open>
  The forge is the one piece of state the runs share. It is the list of the comments of
  the pull request the run targets, oldest first, as the REST interface lists them. A
  request is answered (no network failure is modelled): a page of the list, a comment
  appended under an identifier no comment has, the body of the comment with a given
  identifier replaced, the comment with a given identifier removed.
\<close>

record comment =
  comment_id :: nat
  body :: "string option"

definition get_page :: "comment list \<Rightarrow> nat \<Rightarrow> comment list" where
  \<comment> \<open>The answer to \<^verbatim>\<open>GET .../comments?per_page=100&page=p\<close>\<close>
  "get_page server page = take 100 (drop ((page - 1) * 100) server)"

function list_all_comments_from :: "comment list \<Rightarrow> nat \<Rightarrow> comment list \<Rightarrow> comment list" where
  \<comment> \<open>The loop of \<^verbatim>\<open>list_all_comments\<close>, with \<^verbatim>\<open>page\<close> and \<^verbatim>\<open>comments\<close> as they
      stand at the top of an iteration.\<close>
  "list_all_comments_from server page comments =
     (let batch = get_page server page
      in if batch = [] then comments
         else if length batch < 100 then comments @ batch
         else list_all_comments_from server (page + 1) (comments @ batch))"
  by pat_completeness auto
termination
  by (relation "measure (\<lambda>(server, page, comments). length server + 100 - page * 100)")
    (auto simp: get_page_def)

declare list_all_comments_from.simps [simp del]

definition list_all_comments :: "comment list \<Rightarrow> comment list" where
  "list_all_comments server = list_all_comments_from server 1 []"

definition body_or_empty :: "comment \<Rightarrow> string" where
  \<comment> \<open>\<^verbatim>\<open>c.get("body") or ""\<close>\<close>
  "body_or_empty c = (case body c of None \<Rightarrow> [] | Some b \<Rightarrow> b)"

fun lint_find_in :: "string \<Rightarrow> string \<Rightarrow> comment list \<Rightarrow> nat option" where
  \<comment> \<open>The loop of \<^verbatim>\<open>find_existing_comment_id\<close> of the lint script.\<close>
  "lint_find_in hidden marker [] = None"
| "lint_find_in hidden marker (c # cs) =
     (if sublist hidden (body_or_empty c) \<or> sublist marker (body_or_empty c)
      then Some (comment_id c)
      else lint_find_in hidden marker cs)"

definition lint_find_existing_comment_id :: "comment list \<Rightarrow> string \<Rightarrow> nat option" where
  "lint_find_existing_comment_id server marker =
     lint_find_in (tflint_hidden marker) marker (list_all_comments server)"

fun plan_find_in :: "string \<Rightarrow> comment list \<Rightarrow> nat option" where
  \<comment> \<open>The loop of \<^verbatim>\<open>find_existing_comment_id\<close> of the plan script.\<close>
  "plan_find_in marker_html [] = None"
| "plan_find_in marker_html (c # cs) =
     (if sublist marker_html (body_or_empty c) then Some (comment_id c)
      else plan_find_in marker_html cs)"

definition plan_find_existing_comment_id :: "comment list \<Rightarrow> string \<Rightarrow> nat option" where
  "plan_find_existing_comment_id server marker_html =
     plan_find_in marker_html (list_all_comments server)"

definition update_comment :: "comment list \<Rightarrow> nat \<Rightarrow> string \<Rightarrow> comment list" where
  \<comment> \<open>\<^verbatim>\<open>PATCH .../issues/comments/{id}\<close>\<close>
  "update_comment server cid b =
     map (\<lambda>c. if comment_id c = cid then c\<lparr>body := Some b\<rparr> else c) server"

definition fresh_id :: "comment list \<Rightarrow> nat" where
  "fresh_id server = Suc (fold max (map comment_id server) 0)"

definition create_comment :: "comment list \<Rightarrow> string \<Rightarrow> comment list" where
  \<comment> \<open>\<^verbatim>\<open>POST .../issues/{pr}/comments\<close>\<close>
  "create_comment server b = server @ [\<lparr>comment_id = fresh_id server, body = Some b\<rparr>]"

definition delete_comment :: "comment list \<Rightarrow> nat \<Rightarrow> comment list" where
  \<comment> \<open>\<^verbatim>\<open>DELETE .../issues/comments/{id}\<close>; an identifier that is gone is no error.\<close>
  "delete_comment server cid = filter (\<lambda>c. comment_id c \<noteq> cid) server"

definition truthy_id :: "nat option \<Rightarrow> bool" where
  \<comment> \<open>\<^verbatim>\<open>if existing_id:\<close> holds for an identifier other than \<^verbatim>\<open>None\<close> and 0.\<close>
  "truthy_id r = (case r of None \<Rightarrow> False | Some i \<Rightarrow> i \<noteq> 0)"

definition lint_upsert :: "comment list \<Rightarrow> string \<Rightarrow> string \<Rightarrow> string list \<times> comment list" where
  \<comment> \<open>The last step of \<^verbatim>\<open>main\<close> of the lint script: the log lines and the forge after it.\<close>
  "lint_upsert server wd b =
     (let existing_id = lint_find_existing_comment_id server wd
      in if truthy_id existing_id
         then ([''::notice::Updated TFLint PR comment (id='' @ str_nat (the existing_id) @ '').''],
               update_comment server (the existing_id) b)
         else ([''::notice::Created TFLint PR comment.''], create_comment server b))"

definition plan_upsert :: "comment list \<Rightarrow> string \<Rightarrow> string \<Rightarrow> string list \<times> comment list" where
  \<comment> \<open>The last step of \<^verbatim>\<open>main\<close> of the plan script.\<close>
  "plan_upsert server marker_html b =
     (let existing_id = plan_find_existing_comment_id server marker_html
      in if truthy_id existing_id
         then ([''::notice::Updated Terraform plan PR comment (id='' @ str_nat (the existing_id) @ '').''],
               update_comment server (the existing_id) b)
         else ([''::notice::Created Terraform plan PR comment.''], create_comment server b))"

section \<open>The event payload and the pull-request resolver\<close>

text \<open>
  A JSON value as \<^verbatim>\<open>json.load\<close> returns it (numbers are the integers; a payload's numbers
  are). What the run finds outside the environment variables is one record: whether the
  event path is a file, what opening and loading it gives (the payload, or the exception
  raised: OSError for a file that cannot be read, JSONDecodeError for text that is not
  JSON), what the commit-association request gives, and the two plan files.
\<close>

datatype json = JNull | JBool bool | JInt int | JStr string | JArr "json list"
  | JObj "(string \<times> json) list"

record runner =
  event_is_file :: bool
  event_load :: "py_error + json"
  commit_pulls :: "py_error + json"
  plan_txt :: "string option"
  output_txt :: "string option"

definition bind_err :: "'e + 'a \<Rightarrow> ('a \<Rightarrow> 'e + 'b) \<Rightarrow> 'e + 'b" where
  \<comment> \<open>Sequencing: an exception ends the computation.\<close>
  "bind_err x f = (case x of Inl e \<Rightarrow> Inl e | Inr v \<Rightarrow> f v)"

definition py_in :: "string \<Rightarrow> json \<Rightarrow> py_error + bool" where
  \<comment> \<open>\<^verbatim>\<open>key in v\<close>: a key of a dictionary, an element of a list, a substring of a
      string; any other value is not iterable.\<close>
  "py_in k v =
     (case v of
        JObj kvs \<Rightarrow> Inr (map_of kvs k \<noteq> None)
      | JArr xs \<Rightarrow> Inr (List.member xs (JStr k))
      | JStr s \<Rightarrow> Inr (sublist k s)
      | _ \<Rightarrow> Inl TypeError)"

definition py_getitem :: "json \<Rightarrow> string \<Rightarrow> py_error + json" where
  \<comment> \<open>\<^verbatim>\<open>v[key]\<close> for a string key\<close>
  "py_getitem v k =
     (case v of
        JObj kvs \<Rightarrow> (case map_of kvs k of None \<Rightarrow> Inl KeyError | Some x \<Rightarrow> Inr x)
      | _ \<Rightarrow> Inl TypeError)"

definition py_get :: "json \<Rightarrow> string \<Rightarrow> json \<Rightarrow> py_error + json" where
  \<comment> \<open>\<^verbatim>\<open>v.get(key, default)\<close>: only a dictionary has the method.\<close>
  "py_get v k dflt =
     (case v of
        JObj kvs \<Rightarrow> (case map_of kvs k of None \<Rightarrow> Inr dflt | Some x \<Rightarrow> Inr x)
      | _ \<Rightarrow> Inl AttributeError)"

definition py_int_json :: "json \<Rightarrow> py_error + int" where
  \<comment> \<open>\<^verbatim>\<open>int(v)\<close>\<close>
  "py_int_json v =
     (case v of
        JInt n \<Rightarrow> Inr n
      | JBool b \<Rightarrow> Inr (if b then 1 else 0)
      | JStr s \<Rightarrow> bind_err (py_int s) (\<lambda>n. Inr (int n))
      | _ \<Rightarrow> Inl TypeError)"

definition payload_pr_number :: "json \<Rightarrow> py_error + int option" where
  \<comment> \<open>\<^verbatim>\<open>if "pull_request" in payload and "number" in payload: return int(payload["number"])\<close>;
      \<open>None\<close> when the test fails.\<close>
  "payload_pr_number payload =
     bind_err (py_in ''pull_request'' payload) (\<lambda>b1.
     bind_err (if b1 then py_in ''number'' payload else Inr False) (\<lambda>b2.
     if b2 then bind_err (py_getitem payload ''number'') (\<lambda>v.
                bind_err (py_int_json v) (\<lambda>n. Inr (Some n)))
     else Inr None))"

definition lint_get_pr_number :: "globals \<Rightarrow> runner \<Rightarrow> py_error + int option" where
  \<comment> \<open>\<^verbatim>\<open>get_pr_number\<close> of the lint script: nothing in it catches an exception.\<close>
  "lint_get_pr_number g r =
     (if EVENT_PATH g = [] \<or> \<not> event_is_file r then Inr None
      else bind_err (event_load r) payload_pr_number)"

definition issue_pr_number :: "json \<Rightarrow> py_error + int option" where
  \<comment> \<open>\<^verbatim>\<open>if "issue" in payload and "pull_request" in payload.get("issue", {}):
      return int(payload["issue"].get("number"))\<close>\<close>
  "issue_pr_number payload =
     bind_err (py_in ''issue'' payload) (\<lambda>b1.
     bind_err (if b1 then bind_err (py_get payload ''issue'' (JObj [])) (py_in ''pull_request'')
               else Inr False) (\<lambda>b2.
     if b2 then bind_err (py_getitem payload ''issue'') (\<lambda>i.
                bind_err (py_get i ''number'' JNull) (\<lambda>v.
                bind_err (py_int_json v) (\<lambda>n. Inr (Some n))))
     else Inr None))"

definition plan_payload_try :: "runner \<Rightarrow> py_error + int option" where
  \<comment> \<open>The body of the first \<^verbatim>\<open>try\<close> of \<^verbatim>\<open>get_pr_number\<close> of the plan script; \<open>None\<close>
      when it ends without returning.\<close>
  "plan_payload_try r =
     bind_err (event_load r) (\<lambda>payload.
     bind_err (payload_pr_number payload) (\<lambda>n.
     case n of Some k \<Rightarrow> Inr (Some k) | None \<Rightarrow> issue_pr_number payload))"

definition plan_commit_try :: "runner \<Rightarrow> py_error + int option" where
  \<comment> \<open>The body of the second \<^verbatim>\<open>try\<close>: the first pull request of the commit.\<close>
  "plan_commit_try r =
     bind_err (commit_pulls r) (\<lambda>prs.
     case prs of
       JArr (p # ps) \<Rightarrow> bind_err (py_get p ''number'' JNull) (\<lambda>v.
                        bind_err (py_int_json v) (\<lambda>n. Inr (Some n)))
     | _ \<Rightarrow> Inr None)"

definition error_text :: "py_error \<Rightarrow> string" where
  \<comment> \<open>The text of an exception in a log line: its class stands for it.\<close>
  "error_text e =
     (case e of ValueError \<Rightarrow> ''ValueError'' | TypeError \<Rightarrow> ''TypeError'' | KeyError \<Rightarrow> ''KeyError''
      | AttributeError \<Rightarrow> ''AttributeError'' | OSError \<Rightarrow> ''OSError''
      | JSONDecodeError \<Rightarrow> ''JSONDecodeError'')"

definition plan_commit_fallback :: "globals \<Rightarrow> runner \<Rightarrow> string list \<times> int option" where
  \<comment> \<open>\<^verbatim>\<open>get_pr_number\<close> of the plan script from its second part on.\<close>
  "plan_commit_fallback g r =
     (if GITHUB_SHA g \<noteq> [] then
        (case plan_commit_try r of
           Inl e \<Rightarrow> ([''::warning::Failed resolving PR via commit association: '' @ error_text e], None)
         | Inr n \<Rightarrow> ([], n))
      else ([], None))"

definition plan_get_pr_number :: "globals \<Rightarrow> runner \<Rightarrow> string list \<times> int option" where
  \<comment> \<open>\<^verbatim>\<open>get_pr_number\<close> of the plan script: what it prints and what it returns.\<close>
  "plan_get_pr_number g r =
     (if EVENT_PATH g \<noteq> [] \<and> event_is_file r then
        (case plan_payload_try r of
           Inl e \<Rightarrow>
             (let (out, n) = plan_commit_fallback g r
              in ((''::warning::Failed reading event payload for PR number: '' @ error_text e) # out, n))
         | Inr (Some k) \<Rightarrow> ([], Some k)
         | Inr None \<Rightarrow> plan_commit_fallback g r)
      else plan_commit_fallback g r)"


section \<open>Plan pipeline: rendering\<close>

text \<open>
  The file of the plan script holds its emoji doubly encoded; the constants below are the
  bytes of the literals as the file has them.
\<close>

definition P_TECHNOLOGIST :: string where
  "P_TECHNOLOGIST =
     [CHR 0xC3, CHR 0xB0, CHR 0xC5, CHR 0xB8, CHR 0xC2, CHR 0xA7, CHR 0xE2, CHR 0x80, CHR 0x98, CHR 0xC3, CHR 0xA2, CHR 0xE2, CHR 0x82, CHR 0xAC, CHR 0xC3, CHR 0xB0, CHR 0xC5, CHR 0xB8, CHR 0xE2, CHR 0x80, CHR 0x99, CHR 0xC2, CHR 0xBB]"

definition P_FOLDER :: string where
  "P_FOLDER =
     [CHR 0xC3, CHR 0xB0, CHR 0xC5, CHR 0xB8, CHR 0xE2, CHR 0x80, CHR 0x9C, CHR 0xE2, CHR 0x80, CHR 0x9A]"

definition P_LINK :: string where
  "P_LINK =
     [CHR 0xC3, CHR 0xB0, CHR 0xC5, CHR 0xB8, CHR 0xE2, CHR 0x80, CHR 0x9D, CHR 0xE2, CHR 0x80, CHR 0x94]"

definition P_WRENCH :: string where
  "P_WRENCH =
     [CHR 0xC3, CHR 0xB0, CHR 0xC5, CHR 0xB8, CHR 0xE2, CHR 0x80, CHR 0x9D, CHR 0xC2, CHR 0xA7]"

definition P_ROCKET :: string where
  "P_ROCKET =
     [CHR 0xC3, CHR 0xB0, CHR 0xC5, CHR 0xB8, CHR 0xC5, CHR 0xA1, CHR 0xE2, CHR 0x82, CHR 0xAC]"

definition P_PLUS :: string where
  "P_PLUS =
     [CHR 0xC3, CHR 0xA2, CHR 0xC5, CHR 0xBE, CHR 0xE2, CHR 0x80, CHR 0xA2]"

definition P_RECYCLE :: string where
  "P_RECYCLE =
     [CHR 0xC3, CHR 0xA2, CHR 0xE2, CHR 0x84, CHR 0xA2, CHR 0xC2, CHR 0xBB, CHR 0xC3, CHR 0xAF, CHR 0xC2, CHR 0xB8]"

definition P_WASTEBASKET :: string where
  "P_WASTEBASKET =
     [CHR 0xC3, CHR 0xB0, CHR 0xC5, CHR 0xB8, CHR 0xE2, CHR 0x80, CHR 0x94, CHR 0xE2, CHR 0x80, CHR 0x98, CHR 0xC3, CHR 0xAF, CHR 0xC2, CHR 0xB8]"

definition P_CHECK :: string where
  "P_CHECK =
     [CHR 0xC3, CHR 0xA2, CHR 0xC5, CHR 0x93, CHR 0xE2, CHR 0x80, CHR 0xA6]"

definition P_BOOK :: string where
  "P_BOOK =
     [CHR 0xC3, CHR 0xB0, CHR 0xC5, CHR 0xB8, CHR 0xE2, CHR 0x80, CHR 0x9C, CHR 0xE2, CHR 0x80, CHR 0x93]"

definition P_PACKAGE :: string where
  "P_PACKAGE =
     [CHR 0xC3, CHR 0xB0, CHR 0xC5, CHR 0xB8, CHR 0xE2, CHR 0x80, CHR 0x9C, CHR 0xC2, CHR 0xA6]"

definition plan_workflow_url :: "globals \<Rightarrow> string" where
  \<comment> \<open>\<^verbatim>\<open>workflow_url\<close>\<close>
  "plan_workflow_url g =
     ''https://github.com/'' @ REPO_OWNER_FOR_URL g @ ''/'' @ REPO_NAME g @
     ''/actions/runs/'' @ RUN_ID g"

definition plan_footer_md :: "globals \<Rightarrow> string" where
  \<comment> \<open>\<^verbatim>\<open>footer_md\<close> of the plan script\<close>
  "plan_footer_md g =
     (let run_url = plan_workflow_url g;
         lines = [''\<newline>---\<newline>'',
            P_TECHNOLOGIST @
     '' **Actor**: @'' @ GITHUB_ACTOR g @ ''\<newline>'',
            P_FOLDER @
     '' **Dir**: `'' @ TF_ACTIONS_WORKING_DIR g @ ''`\<newline>'',
            P_LINK @
     '' **Run**: [logs]('' @ run_url @
     '')\<newline>''];
         lines =
           (if GITHUB_SHA g \<noteq> [] then
              (let commit_url = (case GITHUB_SERVER_URL g of Some u \<Rightarrow> u | None \<Rightarrow> ''https://github.com'')
                     @
     ''/'' @ REPO_OWNER_FOR_URL g @ ''/'' @ REPO_NAME g @ ''/commit/'' @
     GITHUB_SHA g;
                   short = take 7 (GITHUB_SHA g)
               in lines @
     [P_WRENCH @ '' **Commit**: ['' @ short @ '']('' @ commit_url @
     '')\<newline>''])
            else lines)
     in concat lines)"

definition plan_summary_md :: "globals \<Rightarrow> string" where
  \<comment> \<open>\<^verbatim>\<open>build_summary_md\<close> of the plan script\<close>
  "plan_summary_md g =
     ''### '' @ P_ROCKET @ '' Terraform Plan Summary\<newline>'' @ ''- '' @ P_PLUS @
     '' (+) **Add**: `'' @ TF_ADD_COUNT g @ ''`\<newline>'' @ ''- '' @ P_RECYCLE @
     '' (~) **Change**: `'' @ TF_CHANGE_COUNT g @ ''`\<newline>'' @ ''- '' @
     P_WASTEBASKET @ '' (-) **Destroy**: `'' @ TF_DESTROY_COUNT g @
     ''`\<newline>\<newline>'' @ P_CHECK @ '' **Plan succeeded**\<newline>''"

definition plan_details_of :: "string \<Rightarrow> string \<Rightarrow> string" where
  \<comment> \<open>The block around the plan text; the closing fence has the two backticks of the source.\<close>
  "plan_details_of text footer =
     ''<details>\<newline><summary>'' @ P_BOOK @
     '' Details (Click me)</summary>\<newline>\<newline>```terraform\<newline>'' @
     extract_plan_only text @ ''\<newline>``\<newline>\<newline>'' @ footer @
     ''</details>\<newline>''"


definition read_plan_details :: "runner \<Rightarrow> string \<Rightarrow> string" where
  \<comment> \<open>\<^verbatim>\<open>plan.txt\<close> of the working directory, else \<^verbatim>\<open>output.txt\<close>, else the placeholder.\<close>
  "read_plan_details r footer =
     (case plan_txt r of
        Some text \<Rightarrow> plan_details_of text footer
      | None \<Rightarrow>
          (case output_txt r of
             Some text \<Rightarrow> plan_details_of text footer
           | None \<Rightarrow>
               ''<details>\<newline><summary>'' @ P_BOOK @
               '' Details (Click me)</summary>\<newline>\<newline>_Not available._\<newline>\<newline>'' @
               footer @ ''</details>\<newline>''))"

definition plan_marker_html :: "globals \<Rightarrow> string" where
  \<comment> \<open>The marker of \<^verbatim>\<open>main\<close> of the plan script: the one provided when it is an HTML
      comment, else one made from the working directory.\<close>
  "plan_marker_html g =
     (if prefix ''<!--'' (PR_COMMENT_MARKER g) \<and> suffix ''-->'' (PR_COMMENT_MARKER g)
      then PR_COMMENT_MARKER g
      else ''<!-- tf-plan:'' @ TF_ACTIONS_WORKING_DIR g @ '' -->'')"

definition plan_header :: "globals \<Rightarrow> string" where
  "plan_header g =
     ''## '' @ P_PACKAGE @ '' Terraform Plan for `'' @ TF_ACTIONS_WORKING_DIR g @ ''` '' @
     plan_marker_html g"

definition plan_body :: "globals \<Rightarrow> runner \<Rightarrow> string" where
  \<comment> \<open>The comment body that \<^verbatim>\<open>main\<close> of the plan script posts.\<close>
  "plan_body g r =
     plan_header g @ ''\<newline>\<newline>'' @ plan_summary_md g @ ''\<newline>'' @
     read_plan_details r (plan_footer_md g) @ ''\<newline>'' @ plan_marker_html g @
     ''\<newline>''"


definition is_pr_event :: "globals \<Rightarrow> bool" where
  "is_pr_event g = (EVENT_NAME g = ''pull_request'' \<or> EVENT_NAME g = ''pull_request_target'')"

definition plan_main :: "globals \<Rightarrow> runner \<Rightarrow> comment list \<Rightarrow> string list \<times> comment list" where
  \<comment> \<open>\<^verbatim>\<open>main\<close> of the plan script: the log and the forge after the run.\<close>
  "plan_main g r server =
     (if \<not> is_pr_event g
      then ([''::notice::Creation of PR comment was skipped (not a PR event).''], server)
      else
        (let (out, pr_number) = plan_get_pr_number g r
         in if pr_number = None \<or> pr_number = Some 0
            then (out @ [''::notice::No PR number detected; skipping comment.''], server)
            else if CREATE_COMMENT g \<and> TOKEN g = []
            then (out @ [''::error::GITHUB_TOKEN is not set but CREATE_COMMENT=true; cannot post PR comment.''],
                  server)
            else
              (let marker_html = plan_marker_html g;
                   (out2, server2) = plan_upsert server marker_html (plan_body g r)
               in (out @ [''::notice::Upserting Terraform plan PR comment for ''
                           @ TF_ACTIONS_WORKING_DIR g @ '' with marker '' @ marker_html] @ out2,
                   server2))))"

definition lint_main :: "globals \<Rightarrow> runner \<Rightarrow> comment list \<Rightarrow> py_error + string list \<times> comment list" where
  \<comment> \<open>\<^verbatim>\<open>main\<close> of the lint script: an exception that leaves it, or the log and the forge
      after the run.\<close>
  "lint_main g r server =
     (if \<not> is_pr_event g then Inr ([''::notice::Creation of PR comment was skipped.''], server)
      else
        bind_err (lint_get_pr_number g r) (\<lambda>pr_number.
        if pr_number = None \<or> pr_number = Some 0
        then Inr ([''::notice::No PR number detected; skipping comment.''], server)
        else
          bind_err (parse_tflint_output (TFLINT_OUTPUT g)) (\<lambda>fs.
          if PR_DELETE_COMMENT g then
            (let existing_id = lint_find_existing_comment_id server (wd_visible g)
             in if truthy_id existing_id
                then Inr ([''::notice::Deleted existing TFLint comment.''],
                          delete_comment server (the existing_id))
                else Inr ([], server))
          else Inr (lint_upsert server (wd_visible g) (lint_body g fs)))))"

section \<open>The environment of a run\<close>

definition env_get :: "(string \<Rightarrow> string option) \<Rightarrow> string \<Rightarrow> string \<Rightarrow> string" where
  \<comment> \<open>\<^verbatim>\<open>os.environ.get(name, default)\<close>\<close>
  "env_get env name dflt = (case env name of Some v \<Rightarrow> v | None \<Rightarrow> dflt)"

definition env_item :: "(string \<Rightarrow> string option) \<Rightarrow> string \<Rightarrow> py_error + string" where
  \<comment> \<open>\<^verbatim>\<open>os.environ[name]\<close>\<close>
  "env_item env name = (case env name of Some v \<Rightarrow> Inr v | None \<Rightarrow> Inl KeyError)"

definition split_repo :: "string \<Rightarrow> py_error + string \<times> string" where
  \<comment> \<open>\<^verbatim>\<open>OWNER, REPO_NAME = REPO.split("/", 1)\<close>: without a slash there is one part only
      and the assignment raises.\<close>
  "split_repo repo =
     (case dropWhile (\<lambda>c. c \<noteq> CHR ''/'') repo of
        [] \<Rightarrow> Inl ValueError
      | c # name \<Rightarrow> Inr (takeWhile (\<lambda>c. c \<noteq> CHR ''/'') repo, name))"

definition or_else :: "string \<Rightarrow> string \<Rightarrow> string" where
  \<comment> \<open>\<^verbatim>\<open>a or b\<close> on strings\<close>
  "or_else a b = (if a \<noteq> [] then a else b)"

definition lint_globals :: "(string \<Rightarrow> string option) \<Rightarrow> py_error + globals" where
  \<comment> \<open>The constants of the lint script, from the environment.\<close>
  "lint_globals env =
     bind_err (env_item env ''GITHUB_REPOSITORY'') (\<lambda>repo.
     bind_err (split_repo repo) (\<lambda>(owner, repo_name).
     bind_err (env_item env ''GITHUB_TOKEN'') (\<lambda>token.
     Inr \<lparr>GITHUB_API = env_get env ''GITHUB_API_URL'' ''https://api.github.com'',
          REPO = repo, OWNER = owner, REPO_NAME = repo_name, TOKEN = token,
          EVENT_NAME = env_get env ''GITHUB_EVENT_NAME'' [],
          EVENT_PATH = env_get env ''GITHUB_EVENT_PATH'' [],
          RUN_ID = env_get env ''GITHUB_RUN_ID'' [],
          REPO_OWNER_FOR_URL = env_get env ''GITHUB_REPOSITORY_OWNER'' owner,
          GITHUB_SHA = env_get env ''GITHUB_SHA'' [],
          PR_COMMENT_MARKER = env_get env ''PR_COMMENT_MARKER'' ''.'',
          TF_ACTIONS_WORKING_DIR = env_get env ''TF_ACTIONS_WORKING_DIR'' ''.'',
          GITHUB_ACTOR = env_get env ''GITHUB_ACTOR'' [],
          GITHUB_WORKFLOW = env_get env ''GITHUB_WORKFLOW'' [],
          TFLINT_OUTPUT = env_get env ''TFLINT_OUTPUT'' [],
          PR_DELETE_COMMENT = (lower (env_get env ''PR_DELETE_COMMENT'' ''false'') = ''true''),
          CREATE_COMMENT = False, TF_ADD_COUNT = [], TF_CHANGE_COUNT = [], TF_DESTROY_COUNT = [],
          GITHUB_WORKSPACE = env ''GITHUB_WORKSPACE'',
          GITHUB_SERVER_URL = env ''GITHUB_SERVER_URL''\<rparr>)))"

definition plan_globals :: "(string \<Rightarrow> string option) \<Rightarrow> py_error + globals" where
  \<comment> \<open>The constants of the plan script, from the environment.\<close>
  "plan_globals env =
     bind_err (env_item env ''GITHUB_REPOSITORY'') (\<lambda>repo.
     bind_err (split_repo repo) (\<lambda>(owner, repo_name).
     Inr \<lparr>GITHUB_API = env_get env ''GITHUB_API_URL'' ''https://api.github.com'',
          REPO = repo, OWNER = owner, REPO_NAME = repo_name,
          TOKEN = env_get env ''GITHUB_TOKEN'' [],
          EVENT_NAME = env_get env ''GITHUB_EVENT_NAME'' [],
          EVENT_PATH = env_get env ''GITHUB_EVENT_PATH'' [],
          RUN_ID = env_get env ''GITHUB_RUN_ID'' [],
          REPO_OWNER_FOR_URL = env_get env ''GITHUB_REPOSITORY_OWNER'' owner,
          GITHUB_SHA = env_get env ''GITHUB_SHA'' [],
          PR_COMMENT_MARKER = strip (or_else (env_get env ''PR_COMMENT_MARKER'' []) []),
          TF_ACTIONS_WORKING_DIR = strip (or_else (env_get env ''TF_ACTIONS_WORKING_DIR'' ''.'') ''.''),
          GITHUB_ACTOR = env_get env ''GITHUB_ACTOR'' [],
          GITHUB_WORKFLOW = env_get env ''GITHUB_WORKFLOW'' [],
          TFLINT_OUTPUT = [], PR_DELETE_COMMENT = False,
          CREATE_COMMENT = (lower (env_get env ''CREATE_COMMENT'' ''false'') = ''true''),
          TF_ADD_COUNT = env_get env ''TF_ADD_COUNT'' ''0'',
          TF_CHANGE_COUNT = env_get env ''TF_CHANGE_COUNT'' ''0'',
          TF_DESTROY_COUNT = env_get env ''TF_DESTROY_COUNT'' ''0'',
          GITHUB_WORKSPACE = env ''GITHUB_WORKSPACE'',
          GITHUB_SERVER_URL = env ''GITHUB_SERVER_URL''\<rparr>))"


section \<open>Predicates of the statements about the forge\<close>

definition carries :: "string \<Rightarrow> comment \<Rightarrow> bool" where
  \<comment> \<open>The comment's body contains the marker.\<close>
  "carries m c = sublist m (body_or_empty c)"

definition forge_ok :: "comment list \<Rightarrow> bool" where
  \<comment> \<open>The identifiers the forge gave are pairwise different and none is 0.\<close>
  "forge_ok server = (distinct (map comment_id server) \<and> 0 \<notin> set (map comment_id server))"

definition only_located_carries :: "string \<Rightarrow> nat option \<Rightarrow> comment list \<Rightarrow> bool" where
  \<comment> \<open>No comment but the one the locator returned carries the marker.\<close>
  "only_located_carries m located server =
     list_all (\<lambda>c. carries m c \<longrightarrow> located = Some (comment_id c)) server"

definition upsert_of :: "(string \<Rightarrow> bool) \<Rightarrow> comment list \<Rightarrow> string \<Rightarrow> comment list" where
  \<comment> \<open>A create-or-update step for a locator that takes the first comment whose body passes
      the test \<open>mp\<close>: the form both upsert steps are shown to have.\<close>
  "upsert_of mp s b =
     (case find (\<lambda>c. mp (body_or_empty c)) s of
        Some c \<Rightarrow> update_comment s (comment_id c) b
      | None \<Rightarrow> create_comment s b)"



section \<open>An example run\<close>

definition example_env :: "bool \<Rightarrow> string \<Rightarrow> string option" where
  \<comment> \<open>The environment of a lint run on a pull request, no working directory given;
      the flag is the delete mode.\<close>
  "example_env del =
     map_of [(''GITHUB_REPOSITORY'', ''acme/infra''), (''GITHUB_TOKEN'', ''t0ken''),
             (''GITHUB_EVENT_NAME'', ''pull_request''), (''GITHUB_EVENT_PATH'', ''/event.json''),
             (''GITHUB_RUN_ID'', ''77''),
             (''PR_DELETE_COMMENT'', if del then ''true'' else ''false'')]"

definition example_runner :: runner where
  "example_runner =
     \<lparr>event_is_file = True,
      event_load = Inr (JObj [(''number'', JInt 5), (''pull_request'', JObj [])]),
      commit_pulls = Inl OSError, plan_txt = None, output_txt = None\<rparr>"

definition example_forge :: "comment list" where
  \<comment> \<open>A coverage report of another tool, then the comment of an earlier lint run.\<close>
  "example_forge =
     [\<lparr>comment_id = 7, body = Some ''Coverage: 91.5%''\<rparr>,
      \<lparr>comment_id = 9, body = Some ''## TFLint <!-- tflint:. -->''\<rparr>]"


section \<open>Predicates of the statements about the parser\<close>

definition all_issues :: "files \<Rightarrow> issue list" where
  \<comment> \<open>The issues of all files.\<close>
  "all_issues fs = concat (map snd fs)"


definition known_level :: "string \<Rightarrow> bool" where
  \<comment> \<open>One of the four severities the totals count.\<close>
  "known_level lvl =
     (lvl = ''error'' \<or> lvl = ''warning'' \<or> lvl = ''notice'' \<or> lvl = ''info'')"






section \<open>Properties of the text operations\<close>













lemma rstrip_snoc_space: "isspace c \<Longrightarrow> rstrip (s @ [c]) = rstrip s"
  by (simp add: rstrip_def)

lemma lstrip_append_space: "lstrip (s @ [c]) = (if \<forall>x\<in>set s. isspace x then lstrip [c] else lstrip s @ [c])"
  by (auto simp: lstrip_def dropWhile_append)










section \<open>The plan-output extractor\<close>


lemmas text_eval = is_linebreak_def isspace_def isdigit_def is_upper_def is_lower_def isalpha_def
  code_of_def lower_def lower_char_def upper_char_def strip_def lstrip_def rstrip_def nl_def
  LF_def CR_def sublist_code



section \<open>The forge: pagination, the locators and the upsert step\<close>

lemma take_100_Nil: "take 100 xs = [] \<longleftrightarrow> xs = []"
  by (cases xs) auto

lemma list_all_comments_from_unfold:
  "list_all_comments_from server page comments =
     (if get_page server page = [] then comments
      else if length (get_page server page) < 100 then comments @ get_page server page
      else list_all_comments_from server (page + 1) (comments @ get_page server page))"
  by (subst list_all_comments_from.simps) (simp add: Let_def)

lemma list_all_comments_from_eq:
  "1 \<le> page \<Longrightarrow>
   list_all_comments_from server page comments = comments @ drop ((page - 1) * 100) server"
proof (induction server page comments rule: list_all_comments_from.induct)
  case (1 server page comments)
  let ?k = "(page - 1) * 100"
  let ?rest = "drop ?k server"
  have gp: "get_page server page = take 100 ?rest" by (simp add: get_page_def)
  show ?case
  proof (cases "get_page server page = []")
    case True
    then have "?rest = []" unfolding gp by (simp only: take_100_Nil)
    with True show ?thesis
      by (subst list_all_comments_from_unfold) simp
  next
    case False
    show ?thesis
    proof (cases "length (get_page server page) < 100")
      case True
      then have "get_page server page = ?rest" unfolding gp by simp
      with False True show ?thesis
        by (subst list_all_comments_from_unfold) simp
    next
      case full: False
      have k: "(page + 1 - 1) * 100 = 100 + ?k" using "1.prems" by (cases page) simp_all
      have dd: "drop (100 + ?k) server = drop 100 ?rest" by simp
      have td: "take 100 ?rest @ drop 100 ?rest = ?rest" by (rule append_take_drop_id)
      have "list_all_comments_from server (page + 1) (comments @ get_page server page)
            = (comments @ get_page server page) @ drop ((page + 1 - 1) * 100) server"
        using "1.IH"[OF refl False full] by simp
      also have "\<dots> = comments @ (take 100 ?rest @ drop 100 ?rest)"
        unfolding gp k dd by (simp only: append_assoc)
      also have "\<dots> = comments @ ?rest" by (simp only: td)
      finally show ?thesis using False full
        by (subst list_all_comments_from_unfold) simp
    qed
  qed
qed

lemma list_all_comments_complete: "list_all_comments server = server"
  by (simp add: list_all_comments_def list_all_comments_from_eq)

lemma lint_find_in_find:
  "lint_find_in hidden marker cs =
     map_option comment_id
       (find (\<lambda>c. sublist hidden (body_or_empty c) \<or> sublist marker (body_or_empty c)) cs)"
  by (induction cs) auto

lemma sublist_hidden_marker: "sublist (tflint_hidden marker) b \<Longrightarrow> sublist marker b"
proof -
  assume a: "sublist (tflint_hidden marker) b"
  have "sublist marker (tflint_hidden marker)"
    unfolding tflint_hidden_def by (rule sublist_appendI)
  with a show ?thesis by (rule sublist_order.order.trans[rotated])
qed

lemma sublist_single: "sublist [x] ys \<longleftrightarrow> x \<in> set ys"
  by (induction ys) (auto simp: sublist_Cons_right)


lemma find_split:
  "find P xs = Some x \<Longrightarrow> \<exists>pre post. xs = pre @ x # post \<and> (\<forall>y\<in>set pre. \<not> P y) \<and> P x"
proof (induction xs)
  case Nil
  then show ?case by simp
next
  case (Cons a xs)
  show ?case
  proof (cases "P a")
    case True
    with Cons.prems have "a = x" by simp
    with True have "a # xs = [] @ x # xs \<and> (\<forall>y\<in>set []. \<not> P y) \<and> P x" by simp
    then show ?thesis by blast
  next
    case False
    with Cons.prems have "find P xs = Some x" by simp
    from Cons.IH[OF this] obtain pre post where
      "xs = pre @ x # post" "\<forall>y\<in>set pre. \<not> P y" "P x" by blast
    with False have "a # xs = (a # pre) @ x # post \<and> (\<forall>y\<in>set (a # pre). \<not> P y) \<and> P x" by simp
    then show ?thesis by blast
  qed
qed

lemma find_append_first:
  "\<forall>y\<in>set pre. \<not> P y \<Longrightarrow> P x \<Longrightarrow> find P (pre @ x # post) = Some x"
  by (induction pre) auto

lemma find_None_append: "find P xs = None \<Longrightarrow> P x \<Longrightarrow> find P (xs @ [x]) = Some x"
  by (induction xs) (auto split: if_splits)

lemma fold_max_ge: "x \<in> set xs \<Longrightarrow> x \<le> fold max xs (a::nat)"
proof (induction xs arbitrary: a)
  case Nil
  then show ?case by simp
next
  case (Cons y ys)
  have mono: "\<And>b. b \<le> fold max ys b"
  proof -
    fix b show "b \<le> fold max ys b"
      by (induction ys arbitrary: b) (auto intro: order_trans[OF max.cobounded2])
  qed
  show ?case
  proof (cases "x = y")
    case True
    have "max y a \<le> fold max ys (max y a)" by (rule mono)
    with True show ?thesis by simp
  next
    case False
    with Cons show ?thesis by simp
  qed
qed

lemma fresh_id_new: "fresh_id server \<notin> set (map comment_id server)"
proof
  assume "fresh_id server \<in> set (map comment_id server)"
  from fold_max_ge[OF this, of 0] show False by (simp add: fresh_id_def)
qed

lemma fresh_id_pos: "fresh_id server \<noteq> 0"
  by (simp add: fresh_id_def)

lemma update_comment_split:
  assumes "distinct (map comment_id (pre @ x # post))"
  shows "update_comment (pre @ x # post) (comment_id x) b = pre @ x\<lparr>body := Some b\<rparr> # post"
proof -
  from assms have "\<forall>y\<in>set pre. comment_id y \<noteq> comment_id x"
    and "\<forall>y\<in>set post. comment_id y \<noteq> comment_id x" by (auto simp: image_iff)
  then have "map (\<lambda>c. if comment_id c = comment_id x then c\<lparr>body := Some b\<rparr> else c) pre = pre"
    and "map (\<lambda>c. if comment_id c = comment_id x then c\<lparr>body := Some b\<rparr> else c) post = post"
    by (simp_all add: map_idI)
  then show ?thesis by (simp add: update_comment_def)
qed

lemma upsert_of_step:
  assumes ok: "forge_ok s"
    and only: "\<forall>c\<in>set s. kp (body_or_empty c) \<longrightarrow>
        map_option comment_id (find (\<lambda>c. mp (body_or_empty c)) s) = Some (comment_id c)"
    and kb: "kp b" and imp: "\<And>x. kp x \<Longrightarrow> mp x"
  shows "forge_ok (upsert_of mp s b) \<and>
    (\<exists>c1. filter (\<lambda>c. kp (body_or_empty c)) (upsert_of mp s b) = [c1] \<and> body c1 = Some b \<and>
       find (\<lambda>c. mp (body_or_empty c)) (upsert_of mp s b) = Some c1) \<and>
    (find (\<lambda>c. mp (body_or_empty c)) s \<noteq> None \<longrightarrow> length (upsert_of mp s b) = length s)"
proof (cases "find (\<lambda>c. mp (body_or_empty c)) s")
  case None
  then have nom: "\<forall>c\<in>set s. \<not> mp (body_or_empty c)" by (simp add: find_None_iff)
  with imp have nok: "\<forall>c\<in>set s. \<not> kp (body_or_empty c)" by blast
  let ?n = "\<lparr>comment_id = fresh_id s, body = Some b\<rparr>"
  have u: "upsert_of mp s b = s @ [?n]" using None by (simp add: upsert_of_def create_comment_def)
  have kn: "kp (body_or_empty ?n)" "mp (body_or_empty ?n)"
    using kb imp by (simp_all add: body_or_empty_def)
  have f1: "filter (\<lambda>c. kp (body_or_empty c)) (s @ [?n]) = [?n]" using nok kn by simp
  have f2: "find (\<lambda>c. mp (body_or_empty c)) (s @ [?n]) = Some ?n"
    using find_None_append[OF None, of ?n] kn by simp
  have f3: "forge_ok (s @ [?n])"
    using ok fresh_id_new[of s] fresh_id_pos[of s] by (auto simp: forge_ok_def)
  have "body ?n = Some b" by simp
  with f1 f2 f3 None show ?thesis unfolding u by blast
next
  case (Some c0)
  from find_split[OF Some] obtain pre post where
    sp: "s = pre @ c0 # post" "\<forall>y\<in>set pre. \<not> mp (body_or_empty y)" "mp (body_or_empty c0)" by blast
  from ok have d: "distinct (map comment_id (pre @ c0 # post))" by (simp add: forge_ok_def sp(1))
  let ?c = "c0\<lparr>body := Some b\<rparr>"
  have u: "upsert_of mp s b = pre @ ?c # post"
    using Some update_comment_split[OF d, of b] by (simp add: upsert_of_def sp(1))
  have others: "\<forall>y\<in>set pre \<union> set post. \<not> kp (body_or_empty y)"
  proof
    fix y assume y: "y \<in> set pre \<union> set post"
    show "\<not> kp (body_or_empty y)"
    proof
      assume "kp (body_or_empty y)"
      with only y sp(1) Some have "comment_id c0 = comment_id y" by auto
      with d y show False by auto
    qed
  qed
  have kc: "kp (body_or_empty ?c)" "mp (body_or_empty ?c)"
    using kb imp by (simp_all add: body_or_empty_def)
  have f1: "filter (\<lambda>c. kp (body_or_empty c)) (pre @ ?c # post) = [?c]"
    using others kc by (simp add: filter_empty_conv)
  have f2: "find (\<lambda>c. mp (body_or_empty c)) (pre @ ?c # post) = Some ?c"
    using find_append_first[of pre "\<lambda>c. mp (body_or_empty c)" ?c post] sp(2) kc by simp
  have ids: "map comment_id (pre @ ?c # post) = map comment_id s" by (simp add: sp(1))
  have f3: "forge_ok (pre @ ?c # post)" using ok unfolding forge_ok_def ids by simp
  have f4: "length (pre @ ?c # post) = length s" by (simp add: sp(1))
  have "body ?c = Some b" by simp
  with f1 f2 f3 f4 show ?thesis unfolding u by blast
qed

lemma truthy_find:
  "forge_ok s \<Longrightarrow>
   truthy_id (map_option comment_id (find P s)) \<longleftrightarrow> find P s \<noteq> None"
proof (cases "find P s")
  case None
  then show ?thesis by (simp add: truthy_id_def)
next
  case (Some c)
  assume ok: "forge_ok s"
  from find_split[OF Some] have "c \<in> set s" by auto
  with ok have "comment_id c \<noteq> 0" by (auto simp: forge_ok_def)
  with Some show ?thesis by (simp add: truthy_id_def)
qed

lemma plan_find_in_find:
  "plan_find_in m cs = map_option comment_id (find (\<lambda>c. sublist m (body_or_empty c)) cs)"
  by (induction cs) auto

lemma plan_upsert_of:
  "forge_ok s \<Longrightarrow> snd (plan_upsert s m b) = upsert_of (sublist m) s b"
  using truthy_find[of s "\<lambda>c. sublist m (body_or_empty c)"]
  by (cases "find (\<lambda>c. sublist m (body_or_empty c)) s")
     (simp_all add: plan_upsert_def plan_find_existing_comment_id_def list_all_comments_complete
       plan_find_in_find upsert_of_def Let_def)

lemma lint_upsert_of:
  "forge_ok s \<Longrightarrow>
   snd (lint_upsert s wd b) = upsert_of (\<lambda>x. sublist (tflint_hidden wd) x \<or> sublist wd x) s b"
  using truthy_find[of s "\<lambda>c. sublist (tflint_hidden wd) (body_or_empty c) \<or> sublist wd (body_or_empty c)"]
  by (cases "find (\<lambda>c. sublist (tflint_hidden wd) (body_or_empty c) \<or> sublist wd (body_or_empty c)) s")
     (simp_all add: lint_upsert_def lint_find_existing_comment_id_def list_all_comments_complete
       lint_find_in_find upsert_of_def Let_def)

lemma upsert_of_twice:
  assumes ok: "forge_ok s"
    and only: "\<forall>c\<in>set s. kp (body_or_empty c) \<longrightarrow>
        map_option comment_id (find (\<lambda>c. mp (body_or_empty c)) s) = Some (comment_id c)"
    and kb: "kp b1" "kp b2" and imp: "\<And>x. kp x \<Longrightarrow> mp x"
  shows "forge_ok (upsert_of mp s b1) \<and>
     (\<exists>c. filter (\<lambda>c. kp (body_or_empty c)) (upsert_of mp (upsert_of mp s b1) b2) = [c] \<and>
          body c = Some b2) \<and>
     length (upsert_of mp (upsert_of mp s b1) b2) = length (upsert_of mp s b1)"
proof -
  let ?s1 = "upsert_of mp s b1"
  from upsert_of_step[of s kp mp b1, OF ok only kb(1) imp] obtain c1 where
    s1: "forge_ok ?s1" "filter (\<lambda>c. kp (body_or_empty c)) ?s1 = [c1]"
        "find (\<lambda>c. mp (body_or_empty c)) ?s1 = Some c1" by blast
  have only1: "\<forall>c\<in>set ?s1. kp (body_or_empty c) \<longrightarrow>
        map_option comment_id (find (\<lambda>c. mp (body_or_empty c)) ?s1) = Some (comment_id c)"
  proof (intro ballI impI)
    fix c assume "c \<in> set ?s1" "kp (body_or_empty c)"
    then have "c \<in> set (filter (\<lambda>c. kp (body_or_empty c)) ?s1)" by simp
    with s1(2) have "c = c1" by simp
    with s1(3) show "map_option comment_id (find (\<lambda>c. mp (body_or_empty c)) ?s1) = Some (comment_id c)"
      by simp
  qed
  from upsert_of_step[of ?s1 kp mp b2, OF s1(1) only1 kb(2) imp] s1(3) s1(1)
  show ?thesis by auto
qed


lemmas forge_eval = list_all_comments_complete lint_find_existing_comment_id_def
  plan_find_existing_comment_id_def lint_upsert_def plan_upsert_def tflint_hidden_def
  body_or_empty_def truthy_id_def update_comment_def create_comment_def delete_comment_def
  fresh_id_def carries_def forge_ok_def only_located_carries_def sublist_code

text \<open>
  Claim C1, as the code has it. Two upsert steps in a row for the same marker, with bodies
  that both carry the marker, leave exactly one comment carrying the marker, its body the
  second run's, and the second step updates (the list keeps its length): provided the
  forge's identifiers are pairwise different and not 0, and before the first run no comment
  but the one the locator returns carries the marker. For the plan script, whose locator
  tests for the marker, that is: at most one comment carries it. The locator of the lint
  script also takes a comment that contains the bare working directory, so there the
  carrier, if any, has to be the first such comment.
\<close>

theorem upsert_twice_single_comment:
  "(forge_ok server \<and> sublist m b1 \<and> sublist m b2 \<and>
      only_located_carries m (plan_find_existing_comment_id server m) server \<longrightarrow>
      (let s1 = snd (plan_upsert server m b1); s2 = snd (plan_upsert s1 m b2)
       in (\<exists>c. filter (carries m) s2 = [c] \<and> body c = Some b2) \<and> length s2 = length s1)) \<and>
   (forge_ok server \<and> sublist (tflint_hidden wd) b1 \<and> sublist (tflint_hidden wd) b2 \<and>
      only_located_carries (tflint_hidden wd) (lint_find_existing_comment_id server wd) server \<longrightarrow>
      (let s1 = snd (lint_upsert server wd b1); s2 = snd (lint_upsert s1 wd b2)
       in (\<exists>c. filter (carries (tflint_hidden wd)) s2 = [c] \<and> body c = Some b2) \<and>
          length s2 = length s1))"
proof (intro conjI impI)
  assume a: "forge_ok server \<and> sublist m b1 \<and> sublist m b2 \<and>
      only_located_carries m (plan_find_existing_comment_id server m) server"
  then have only: "\<forall>c\<in>set server. sublist m (body_or_empty c) \<longrightarrow>
      map_option comment_id (find (\<lambda>c. sublist m (body_or_empty c)) server) = Some (comment_id c)"
    by (simp add: only_located_carries_def list_all_iff carries_def
        plan_find_existing_comment_id_def list_all_comments_complete plan_find_in_find)
  from a have ok: "forge_ok server" and b: "sublist m b1" "sublist m b2" by simp_all
  from upsert_of_twice[of server "sublist m" "sublist m" b1 b2, OF ok only b]
  have r: "forge_ok (upsert_of (sublist m) server b1)"
    "\<exists>c. filter (\<lambda>c. sublist m (body_or_empty c))
        (upsert_of (sublist m) (upsert_of (sublist m) server b1) b2) = [c] \<and> body c = Some b2"
    "length (upsert_of (sublist m) (upsert_of (sublist m) server b1) b2) =
       length (upsert_of (sublist m) server b1)" by simp_all
  have c: "carries m = (\<lambda>c. sublist m (body_or_empty c))" by (rule ext) (simp add: carries_def)
  show "let s1 = snd (plan_upsert server m b1); s2 = snd (plan_upsert s1 m b2)
       in (\<exists>c. filter (carries m) s2 = [c] \<and> body c = Some b2) \<and> length s2 = length s1"
    using r unfolding Let_def c plan_upsert_of[OF ok] plan_upsert_of[OF r(1)] by simp
next
  let ?h = "tflint_hidden wd"
  let ?mp = "\<lambda>x. sublist ?h x \<or> sublist wd x"
  assume a: "forge_ok server \<and> sublist ?h b1 \<and> sublist ?h b2 \<and>
      only_located_carries ?h (lint_find_existing_comment_id server wd) server"
  then have only: "\<forall>c\<in>set server. sublist ?h (body_or_empty c) \<longrightarrow>
      map_option comment_id (find (\<lambda>c. ?mp (body_or_empty c)) server) = Some (comment_id c)"
    by (simp add: only_located_carries_def list_all_iff carries_def
        lint_find_existing_comment_id_def list_all_comments_complete lint_find_in_find)
  from a have ok: "forge_ok server" and b: "sublist ?h b1" "sublist ?h b2" by simp_all
  have imp: "\<And>x. sublist ?h x \<Longrightarrow> ?mp x" by simp
  from upsert_of_twice[of server "sublist ?h" ?mp b1 b2, OF ok only b imp]
  have r: "forge_ok (upsert_of ?mp server b1)"
    "\<exists>c. filter (\<lambda>c. sublist ?h (body_or_empty c))
        (upsert_of ?mp (upsert_of ?mp server b1) b2) = [c] \<and> body c = Some b2"
    "length (upsert_of ?mp (upsert_of ?mp server b1) b2) = length (upsert_of ?mp server b1)"
    by simp_all
  have c: "carries ?h = (\<lambda>c. sublist ?h (body_or_empty c))" by (rule ext) (simp add: carries_def)
  show "let s1 = snd (lint_upsert server wd b1); s2 = snd (lint_upsert s1 wd b2)
       in (\<exists>c. filter (carries ?h) s2 = [c] \<and> body c = Some b2) \<and> length s2 = length s1"
    using r unfolding Let_def c lint_upsert_of[OF ok] lint_upsert_of[OF r(1)] by simp
qed

theorem upsert_twice_single_comment_witness:
  "forge_ok [] \<and> sublist ''<!-- tf-plan:. -->'' ''run 1 <!-- tf-plan:. -->'' \<and>
   sublist ''<!-- tf-plan:. -->'' ''run 2 <!-- tf-plan:. -->'' \<and>
   only_located_carries ''<!-- tf-plan:. -->''
     (plan_find_existing_comment_id [] ''<!-- tf-plan:. -->'') [] \<and>
   (let s1 = snd (plan_upsert [] ''<!-- tf-plan:. -->'' ''run 1 <!-- tf-plan:. -->'');
        s2 = snd (plan_upsert s1 ''<!-- tf-plan:. -->'' ''run 2 <!-- tf-plan:. -->'')
    in (\<exists>c. filter (carries ''<!-- tf-plan:. -->'') s2 = [c] \<and>
             body c = Some ''run 2 <!-- tf-plan:. -->'') \<and> length s2 = length s1) \<and>
   forge_ok [\<lparr>comment_id = 4, body = Some ''LGTM''\<rparr>] \<and>
   sublist (tflint_hidden ''infra'') ''run 1 <!-- tflint:infra -->'' \<and>
   sublist (tflint_hidden ''infra'') ''run 2 <!-- tflint:infra -->'' \<and>
   only_located_carries (tflint_hidden ''infra'')
     (lint_find_existing_comment_id [\<lparr>comment_id = 4, body = Some ''LGTM''\<rparr>] ''infra'')
     [\<lparr>comment_id = 4, body = Some ''LGTM''\<rparr>] \<and>
   (let s1 = snd (lint_upsert [\<lparr>comment_id = 4, body = Some ''LGTM''\<rparr>] ''infra''
                   ''run 1 <!-- tflint:infra -->'');
        s2 = snd (lint_upsert s1 ''infra'' ''run 2 <!-- tflint:infra -->'')
    in (\<exists>c. filter (carries (tflint_hidden ''infra'')) s2 = [c] \<and>
             body c = Some ''run 2 <!-- tflint:infra -->'') \<and> length s2 = length s1)"
proof -
  have p: "forge_ok [] \<and> sublist ''<!-- tf-plan:. -->'' ''run 1 <!-- tf-plan:. -->'' \<and>
     sublist ''<!-- tf-plan:. -->'' ''run 2 <!-- tf-plan:. -->'' \<and>
     only_located_carries ''<!-- tf-plan:. -->''
       (plan_find_existing_comment_id [] ''<!-- tf-plan:. -->'') []"
    by (simp add: forge_eval)
  have l: "forge_ok [\<lparr>comment_id = 4, body = Some ''LGTM''\<rparr>] \<and>
     sublist (tflint_hidden ''infra'') ''run 1 <!-- tflint:infra -->'' \<and>
     sublist (tflint_hidden ''infra'') ''run 2 <!-- tflint:infra -->'' \<and>
     only_located_carries (tflint_hidden ''infra'')
       (lint_find_existing_comment_id [\<lparr>comment_id = 4, body = Some ''LGTM''\<rparr>] ''infra'')
       [\<lparr>comment_id = 4, body = Some ''LGTM''\<rparr>]"
    by (simp add: forge_eval)
  from p l
    upsert_twice_single_comment[of "[]" "''<!-- tf-plan:. -->''" "''run 1 <!-- tf-plan:. -->''"
      "''run 2 <!-- tf-plan:. -->''" "''infra''"]
    upsert_twice_single_comment[of "[\<lparr>comment_id = 4, body = Some ''LGTM''\<rparr>]" "''x''"
      "''run 1 <!-- tflint:infra -->''" "''run 2 <!-- tflint:infra -->''" "''infra''"]
  show ?thesis by blast
qed

theorem upsert_twice_two_comments_counterexample:
  "forge_ok [\<lparr>comment_id = 1, body = Some ''see ./docs''\<rparr>,
             \<lparr>comment_id = 2, body = Some ''run 0 <!-- tflint:. -->''\<rparr>] \<and>
   filter (carries (tflint_hidden ''.''))
     [\<lparr>comment_id = 1, body = Some ''see ./docs''\<rparr>,
      \<lparr>comment_id = 2, body = Some ''run 0 <!-- tflint:. -->''\<rparr>] =
     [\<lparr>comment_id = 2, body = Some ''run 0 <!-- tflint:. -->''\<rparr>] \<and>
   snd (lint_upsert
         (snd (lint_upsert
                 [\<lparr>comment_id = 1, body = Some ''see ./docs''\<rparr>,
                  \<lparr>comment_id = 2, body = Some ''run 0 <!-- tflint:. -->''\<rparr>]
                 ''.'' ''run 1 <!-- tflint:. -->''))
         ''.'' ''run 2 <!-- tflint:. -->'') =
     [\<lparr>comment_id = 1, body = Some ''run 2 <!-- tflint:. -->''\<rparr>,
      \<lparr>comment_id = 2, body = Some ''run 0 <!-- tflint:. -->''\<rparr>] \<and>
   length (filter (carries (tflint_hidden ''.''))
     [\<lparr>comment_id = 1, body = Some ''run 2 <!-- tflint:. -->''\<rparr>,
      \<lparr>comment_id = 2, body = Some ''run 0 <!-- tflint:. -->''\<rparr>]) = 2"
  by (simp add: forge_eval)


text \<open>
  Claim C10. The locator of the lint script returns the identifier of the first comment
  whose body contains the hidden token or the marker string itself. With the marker \<open>.\<close>,
  which is the working directory of a run that sets none, that is the first comment whose
  body contains a dot. In the example a coverage report of another tool precedes the
  comment of an earlier lint run: the delete run removes the report, the posting run
  overwrites it.
\<close>

theorem lint_locator_matches_working_dir:
  "lint_find_existing_comment_id server marker =
     map_option comment_id
       (find (\<lambda>c. sublist (tflint_hidden marker) (body_or_empty c) \<or>
                   sublist marker (body_or_empty c)) server) \<and>
   lint_find_existing_comment_id server ''.'' =
     map_option comment_id (find (\<lambda>c. CHR ''.'' \<in> set (body_or_empty c)) server) \<and>
   (env ''TF_ACTIONS_WORKING_DIR'' = None \<longrightarrow>
      (case lint_globals env of Inr g \<Rightarrow> wd_visible g = ''.'' | Inl e \<Rightarrow> True)) \<and>
   lint_find_existing_comment_id example_forge ''.'' = Some 7 \<and>
   bind_err (lint_globals (example_env True)) (\<lambda>g. lint_main g example_runner example_forge) =
     Inr ([''::notice::Deleted existing TFLint comment.''],
          [\<lparr>comment_id = 9, body = Some ''## TFLint <!-- tflint:. -->''\<rparr>]) \<and>
   snd (lint_upsert example_forge ''.'' b) =
     [\<lparr>comment_id = 7, body = Some b\<rparr>,
      \<lparr>comment_id = 9, body = Some ''## TFLint <!-- tflint:. -->''\<rparr>]"
proof (intro conjI impI)
  show "lint_find_existing_comment_id server marker =
     map_option comment_id
       (find (\<lambda>c. sublist (tflint_hidden marker) (body_or_empty c) \<or>
                   sublist marker (body_or_empty c)) server)"
    by (simp add: lint_find_existing_comment_id_def list_all_comments_complete lint_find_in_find)
next
  have "\<And>b. sublist (tflint_hidden ''.'') b \<or> sublist ''.'' b \<longleftrightarrow> CHR ''.'' \<in> set b"
    using sublist_hidden_marker[of "''.''"] by (auto simp: sublist_single)
  then show "lint_find_existing_comment_id server ''.'' =
     map_option comment_id (find (\<lambda>c. CHR ''.'' \<in> set (body_or_empty c)) server)"
    by (simp add: lint_find_existing_comment_id_def list_all_comments_complete lint_find_in_find)
next
  assume "env ''TF_ACTIONS_WORKING_DIR'' = None"
  then show "case lint_globals env of Inr g \<Rightarrow> wd_visible g = ''.'' | Inl e \<Rightarrow> True"
    by (auto simp: lint_globals_def bind_err_def env_get_def wd_visible_def
        split: sum.splits prod.splits)
next
  show "lint_find_existing_comment_id example_forge ''.'' = Some 7"
    by (simp add: example_forge_def forge_eval)
next
  have g: "lint_globals (example_env True) = Inr
     \<lparr>GITHUB_API = ''https://api.github.com'', REPO = ''acme/infra'', OWNER = ''acme'',
      REPO_NAME = ''infra'', TOKEN = ''t0ken'', EVENT_NAME = ''pull_request'',
      EVENT_PATH = ''/event.json'', RUN_ID = ''77'', REPO_OWNER_FOR_URL = ''acme'',
      GITHUB_SHA = [], PR_COMMENT_MARKER = ''.'', TF_ACTIONS_WORKING_DIR = ''.'',
      GITHUB_ACTOR = [], GITHUB_WORKFLOW = [], TFLINT_OUTPUT = [], PR_DELETE_COMMENT = True,
      CREATE_COMMENT = False, TF_ADD_COUNT = [], TF_CHANGE_COUNT = [], TF_DESTROY_COUNT = [],
      GITHUB_WORKSPACE = None, GITHUB_SERVER_URL = None\<rparr>"
    by (simp add: lint_globals_def example_env_def bind_err_def env_item_def env_get_def
        split_repo_def text_eval)
  show "bind_err (lint_globals (example_env True)) (\<lambda>g. lint_main g example_runner example_forge) =
     Inr ([''::notice::Deleted existing TFLint comment.''],
          [\<lparr>comment_id = 9, body = Some ''## TFLint <!-- tflint:. -->''\<rparr>])"
    unfolding g
    by (simp add: bind_err_def lint_main_def is_pr_event_def lint_get_pr_number_def
        example_runner_def payload_pr_number_def py_in_def py_getitem_def py_int_json_def
        parse_tflint_output_def wd_visible_def example_forge_def forge_eval)
next
  show "snd (lint_upsert example_forge ''.'' b) =
     [\<lparr>comment_id = 7, body = Some b\<rparr>,
      \<lparr>comment_id = 9, body = Some ''## TFLint <!-- tflint:. -->''\<rparr>]"
    by (simp add: example_forge_def forge_eval)
qed

theorem lint_locator_matches_working_dir_witness:
  "example_env False ''TF_ACTIONS_WORKING_DIR'' = None \<and>
   (case lint_globals (example_env False) of Inr g \<Rightarrow> wd_visible g = ''.'' | Inl e \<Rightarrow> False) \<and>
   lint_find_existing_comment_id example_forge ''.'' =
     map_option comment_id (find (\<lambda>c. CHR ''.'' \<in> set (body_or_empty c)) example_forge)"
proof -
  have a: "example_env False ''TF_ACTIONS_WORKING_DIR'' = None"
    by (simp add: example_env_def)
  have b: "\<exists>g. lint_globals (example_env False) = Inr g"
    by (simp add: lint_globals_def example_env_def bind_err_def env_item_def env_get_def
        split_repo_def text_eval)
  note t = lint_locator_matches_working_dir[of example_forge "''.''" "example_env False"]
  from t have c2: "lint_find_existing_comment_id example_forge ''.'' =
     map_option comment_id (find (\<lambda>c. CHR ''.'' \<in> set (body_or_empty c)) example_forge)"
    by (rule conjunct2[THEN conjunct1])
  from t a have "case lint_globals (example_env False) of Inr g \<Rightarrow> wd_visible g = ''.'' | Inl e \<Rightarrow> True"
    by blast
  with b have c3: "case lint_globals (example_env False) of Inr g \<Rightarrow> wd_visible g = ''.'' | Inl e \<Rightarrow> False"
    by (auto split: sum.splits)
  from a c3 c2 show ?thesis by blast
qed


section \<open>The pull-request resolver on a malformed event payload\<close>

text \<open>
  Claim C6, on the event file that cannot be read or does not hold JSON: opening and
  loading it raises \<open>e\<close>. The resolver of the plan script prints a warning and goes on to
  the commit association. The resolver of the lint script has no handler: the exception
  leaves it, and leaves \<^verbatim>\<open>main\<close>, which calls it outside any \<^verbatim>\<open>try\<close>; the run ends with the
  exception instead of "no PR found".
\<close>

theorem lint_get_pr_number_raises_on_malformed_payload:
  "lint_get_pr_number g (r\<lparr>event_is_file := True, event_load := Inl e\<rparr>) =
     (if EVENT_PATH g = [] then Inr None else Inl e) \<and>
   lint_main g (r\<lparr>event_is_file := True, event_load := Inl e\<rparr>) server =
     (if \<not> is_pr_event g then Inr ([''::notice::Creation of PR comment was skipped.''], server)
      else if EVENT_PATH g = []
      then Inr ([''::notice::No PR number detected; skipping comment.''], server)
      else Inl e) \<and>
   plan_get_pr_number g (r\<lparr>event_is_file := True, event_load := Inl e\<rparr>) =
     (if EVENT_PATH g = []
      then plan_commit_fallback g (r\<lparr>event_is_file := True, event_load := Inl e\<rparr>)
      else ((''::warning::Failed reading event payload for PR number: '' @ error_text e) #
              fst (plan_commit_fallback g (r\<lparr>event_is_file := True, event_load := Inl e\<rparr>)),
            snd (plan_commit_fallback g (r\<lparr>event_is_file := True, event_load := Inl e\<rparr>))))"
  by (simp add: lint_get_pr_number_def lint_main_def plan_get_pr_number_def plan_payload_try_def
      bind_err_def split_beta)

theorem lint_get_pr_number_raises_on_malformed_payload_witness:
  "bind_err (lint_globals (example_env False))
     (\<lambda>g. lint_get_pr_number g (example_runner\<lparr>event_is_file := True, event_load := Inl JSONDecodeError\<rparr>))
     = Inl JSONDecodeError \<and>
   bind_err (lint_globals (example_env False))
     (\<lambda>g. lint_main g (example_runner\<lparr>event_is_file := True, event_load := Inl JSONDecodeError\<rparr>)
            example_forge)
     = Inl JSONDecodeError \<and>
   bind_err (lint_globals (example_env False))
     (\<lambda>g. Inr (plan_get_pr_number g
            (example_runner\<lparr>event_is_file := True, event_load := Inl JSONDecodeError\<rparr>)))
     = Inr ([''::warning::Failed reading event payload for PR number: JSONDecodeError''], None)"
proof -
  have g: "\<exists>g. lint_globals (example_env False) = Inr g \<and> EVENT_PATH g = ''/event.json'' \<and>
      is_pr_event g \<and> GITHUB_SHA g = []"
    by (simp add: lint_globals_def example_env_def bind_err_def env_item_def env_get_def
        split_repo_def is_pr_event_def text_eval)
  then obtain g where g: "lint_globals (example_env False) = Inr g" "EVENT_PATH g = ''/event.json''"
    "is_pr_event g" "GITHUB_SHA g = []" by blast
  from lint_get_pr_number_raises_on_malformed_payload[where g = g and r = example_runner
      and e = JSONDecodeError and server = example_forge] g
  show ?thesis
    by (simp add: bind_err_def plan_commit_fallback_def error_text_def)
qed

section \<open>The parser of the lint output\<close>

lemmas parse_eval = parse_tflint_output_def line_re_match_def take_plus_def expect_char_def
  rule_suffix_def is_summary_line_def make_issue_def py_int_def digits_value_def issue_key_def
  SEV_WEIGHT_def

subsection \<open>Totals\<close>

lemma fold_count_level:
  "fold (\<lambda>it t. count_level t it) its t k = t k + length (filter (\<lambda>it. level it = k) its)"
  by (induction its arbitrary: t) (auto simp: count_level_def)

lemma fold_fold_count_level:
  "fold (\<lambda>issues t. fold (\<lambda>it t. count_level t it) issues t) iss t k =
     t k + length (filter (\<lambda>it. level it = k) (concat iss))"
  by (induction iss arbitrary: t) (auto simp: fold_count_level)

lemma length_filter_known:
  "length (filter (\<lambda>it. known_level (level it)) its) =
     length (filter (\<lambda>it. level it = ''error'') its) +
     length (filter (\<lambda>it. level it = ''warning'') its) +
     length (filter (\<lambda>it. level it = ''info'') its) +
     length (filter (\<lambda>it. level it = ''notice'') its)"
  by (induction its) (auto simp: known_level_def)

lemma length_filter_info:
  "length (filter (\<lambda>it. level it = ''info'' \<or> level it = ''notice'') its) =
     length (filter (\<lambda>it. level it = ''info'') its) +
     length (filter (\<lambda>it. level it = ''notice'') its)"
  by (induction its) auto

lemma totals_from_files_counts:
  "totals_from_files fs =
     \<lparr>tot_error = length (filter (\<lambda>it. level it = ''error'') (all_issues fs)),
      tot_warning = length (filter (\<lambda>it. level it = ''warning'') (all_issues fs)),
      tot_info = length (filter (\<lambda>it. level it = ''info'' \<or> level it = ''notice'') (all_issues fs)),
      tot_total = length (filter (\<lambda>it. known_level (level it)) (all_issues fs))\<rparr>"
  by (simp add: totals_from_files_def Let_def fold_fold_count_level all_issues_def
      length_filter_known length_filter_info)

theorem totals_unknown_level_counterexample:
  "parse_tflint_output ''main.tf:1:1: Fatal - boom'' =
     Inr [(''main.tf'', [\<lparr>line = 1, col = 1, level = ''fatal'', rule = [], msg = ''boom''\<rparr>])] \<and>
   tot_total (totals_from_files
     [(''main.tf'', [\<lparr>line = 1, col = 1, level = ''fatal'', rule = [], msg = ''boom''\<rparr>])]) = 0 \<and>
   length (all_issues
     [(''main.tf'', [\<lparr>line = 1, col = 1, level = ''fatal'', rule = [], msg = ''boom''\<rparr>])]) = 1"
  by (simp add: parse_eval text_eval totals_from_files_counts all_issues_def known_level_def)


subsection \<open>The parser never raises\<close>










subsection \<open>Lines of the fixed shape\<close>




lemma rstrip_Cons:
  "rstrip (c # cs) = (if list_all isspace (c # cs) then [] else c # rstrip cs)"
proof (cases "list_all isspace cs")
  case True
  then have "dropWhile isspace (rev cs) = []" by (simp add: list_all_iff)
  with True show ?thesis by (simp add: rstrip_def dropWhile_append list_all_iff)
next
  case False
  then show ?thesis by (auto simp: rstrip_def dropWhile_append list_all_iff)
qed

lemma not_isspace_parens: "\<not> isspace (CHR ''('')" "\<not> isspace (CHR '')'')" "\<not> isspace (CHR '':'')"
  "\<not> isspace (CHR ''-'')" "isspace (CHR '' '')"
  by (simp_all add: isspace_def code_of_def)



lemma rule_suffix_spaces_rule:
  assumes "list_all isspace ws" "r \<noteq> []" "CHR '')'' \<notin> set r"
  shows "rule_suffix (ws @ CHR ''('' # r @ '')'') = Some r"
proof -
  have a: "dropWhile isspace (ws @ CHR ''('' # r @ '')'') = CHR ''('' # r @ '')''"
    using assms(1) by (simp add: dropWhile_append list_all_iff not_isspace_parens)
  have b: "take_plus (\<lambda>x. x \<noteq> CHR '')'') (r @ '')'') = Some (r, '')'')"
    using assms(2,3) by (auto simp: take_plus_def takeWhile_append dropWhile_append)
  show ?thesis by (simp add: rule_suffix_def a expect_char_def b)
qed

lemma rule_suffix_not_paren:
  assumes "\<not> list_all isspace s" "CHR ''('' \<notin> set s"
  shows "rule_suffix (s @ t) = None"
proof -
  from assms(1) obtain x xs where d: "dropWhile isspace s = x # xs"
    by (cases "dropWhile isspace s") (auto simp: dropWhile_eq_Nil_conv list_all_iff)
  then have "x \<in> set s" by (metis list.set_intros(1) set_dropWhileD)
  with assms(2) have x: "x \<noteq> CHR ''(''" by auto
  from assms(1) have "dropWhile isspace (s @ t) = dropWhile isspace s @ t"
    by (auto simp: dropWhile_append list_all_iff)
  with d x show ?thesis by (simp add: rule_suffix_def expect_char_def)
qed

lemma find_msg_with_rule:
  "CHR ''('' \<notin> set s \<Longrightarrow> r \<noteq> [] \<Longrightarrow> CHR '')'' \<notin> set r \<Longrightarrow>
   find_msg acc (s @ '' ('' @ r @ '')'') = (acc @ rstrip s, Some r)"
proof (induction s arbitrary: acc)
  case Nil
  have "rule_suffix ('' '' @ CHR ''('' # r @ '')'') = Some r"
    using Nil by (intro rule_suffix_spaces_rule) (simp_all add: not_isspace_parens)
  then show ?case by (simp add: rstrip_def)
next
  case (Cons c cs)
  show ?case
  proof (cases "list_all isspace (c # cs)")
    case True
    then have "rule_suffix (((c # cs) @ '' '') @ CHR ''('' # r @ '')'') = Some r"
      using Cons.prems by (intro rule_suffix_spaces_rule) (simp_all add: not_isspace_parens)
    with True show ?thesis by (simp add: rstrip_Cons)
  next
    case False
    from rule_suffix_not_paren[OF False Cons.prems(1), of "'' ('' @ r @ '')''"]
    have none: "rule_suffix (c # cs @ '' ('' @ r @ '')'') = None" by simp
    from False have nsp: "\<not> list_all isspace (c # cs @ '' ('' @ r @ '')'')" by auto
    from False have r: "rstrip (c # cs) = c # rstrip cs" by (simp add: rstrip_Cons)
    from Cons.prems have "CHR ''('' \<notin> set cs" by simp
    from Cons.IH[OF this Cons.prems(2,3), of "acc @ [c]"] none nsp r show ?thesis by simp
  qed
qed
































text \<open>
  Claim C3, as the code has it. The totals of a parsed result satisfy
  \<open>total = error + warning + info\<close>, where \<open>info\<close> counts the issues of level info or
  notice. The total is the number of parsed issues whose level is one of error, warning,
  notice and info; it is the number of all parsed issues when every level is one of these
  four. An issue of any other level (the pattern takes any word) is in no count.
\<close>

theorem totals_from_parsed_issues:
  "parse_tflint_output text = Inr fs \<longrightarrow>
     (let t = totals_from_files fs
      in tot_total t = tot_error t + tot_warning t + tot_info t \<and>
         tot_error t = length (filter (\<lambda>it. level it = ''error'') (all_issues fs)) \<and>
         tot_warning t = length (filter (\<lambda>it. level it = ''warning'') (all_issues fs)) \<and>
         tot_info t =
           length (filter (\<lambda>it. level it = ''info'' \<or> level it = ''notice'') (all_issues fs)) \<and>
         tot_total t = length (filter (\<lambda>it. known_level (level it)) (all_issues fs)) \<and>
         (list_all (\<lambda>it. known_level (level it)) (all_issues fs) \<longrightarrow>
            tot_total t = length (all_issues fs)))"
proof
  have "list_all (\<lambda>it. known_level (level it)) (all_issues fs) \<longrightarrow>
      length (filter (\<lambda>it. known_level (level it)) (all_issues fs)) = length (all_issues fs)"
    by (simp add: list_all_iff)
  then show "let t = totals_from_files fs
      in tot_total t = tot_error t + tot_warning t + tot_info t \<and>
         tot_error t = length (filter (\<lambda>it. level it = ''error'') (all_issues fs)) \<and>
         tot_warning t = length (filter (\<lambda>it. level it = ''warning'') (all_issues fs)) \<and>
         tot_info t =
           length (filter (\<lambda>it. level it = ''info'' \<or> level it = ''notice'') (all_issues fs)) \<and>
         tot_total t = length (filter (\<lambda>it. known_level (level it)) (all_issues fs)) \<and>
         (list_all (\<lambda>it. known_level (level it)) (all_issues fs) \<longrightarrow>
            tot_total t = length (all_issues fs))"
    by (simp add: totals_from_files_counts Let_def length_filter_known length_filter_info)
qed

theorem totals_from_parsed_issues_witness:
  "parse_tflint_output (''a.tf:1:1: Error - x'' @ nl @ ''b.tf:2:2: notice - y (r)'') =
     Inr [(''a.tf'', [\<lparr>line = 1, col = 1, level = ''error'', rule = [], msg = ''x''\<rparr>]),
          (''b.tf'', [\<lparr>line = 2, col = 2, level = ''notice'', rule = ''r'', msg = ''y''\<rparr>])] \<and>
   list_all (\<lambda>it. known_level (level it))
     (all_issues [(''a.tf'', [\<lparr>line = 1, col = 1, level = ''error'', rule = [], msg = ''x''\<rparr>]),
          (''b.tf'', [\<lparr>line = 2, col = 2, level = ''notice'', rule = ''r'', msg = ''y''\<rparr>])]) \<and>
   totals_from_files
     [(''a.tf'', [\<lparr>line = 1, col = 1, level = ''error'', rule = [], msg = ''x''\<rparr>]),
      (''b.tf'', [\<lparr>line = 2, col = 2, level = ''notice'', rule = ''r'', msg = ''y''\<rparr>])] =
     \<lparr>tot_error = 1, tot_warning = 0, tot_info = 1, tot_total = 2\<rparr> \<and>
   tot_total (totals_from_files
     [(''a.tf'', [\<lparr>line = 1, col = 1, level = ''error'', rule = [], msg = ''x''\<rparr>]),
      (''b.tf'', [\<lparr>line = 2, col = 2, level = ''notice'', rule = ''r'', msg = ''y''\<rparr>])]) =
   length (all_issues
     [(''a.tf'', [\<lparr>line = 1, col = 1, level = ''error'', rule = [], msg = ''x''\<rparr>]),
      (''b.tf'', [\<lparr>line = 2, col = 2, level = ''notice'', rule = ''r'', msg = ''y''\<rparr>])])"
proof -
  let ?fs = "[(''a.tf'', [\<lparr>line = 1, col = 1, level = ''error'', rule = [], msg = ''x''\<rparr>]),
          (''b.tf'', [\<lparr>line = 2, col = 2, level = ''notice'', rule = ''r'', msg = ''y''\<rparr>])]"
  have p: "parse_tflint_output (''a.tf:1:1: Error - x'' @ nl @ ''b.tf:2:2: notice - y (r)'') = Inr ?fs"
    by (simp add: parse_eval text_eval)
  have k: "list_all (\<lambda>it. known_level (level it)) (all_issues ?fs)"
    by (simp add: all_issues_def known_level_def)
  have v: "totals_from_files ?fs = \<lparr>tot_error = 1, tot_warning = 0, tot_info = 1, tot_total = 2\<rparr>"
    by (simp add: totals_from_files_counts all_issues_def known_level_def)
  from totals_from_parsed_issues[of "''a.tf:1:1: Error - x'' @ nl @ ''b.tf:2:2: notice - y (r)''" ?fs] p k
  have "tot_total (totals_from_files ?fs) = length (all_issues ?fs)"
    unfolding Let_def by blast
  with p k v show ?thesis by blast
qed





end
